theory Spec2Isabelle
  imports Complex_Main "HOL-Library.Word" "HOL-Library.Signed_Division"
begin

unbundle bit_operations_syntax

section \<open>C values\<close>

text \<open>
  \<^verbatim>\<open>int\<close> of the host program and of the OpenCL C kernel is a 32-bit two's complement
  integer: a \<open>32 word\<close>, read by \<open>sint\<close>; \<open>+\<close> and \<open>*\<close> wrap around. \<^verbatim>\<open>cl_int\<close>, the
  status every OpenCL call reports, is the same type. Opaque OpenCL handles
  (\<^verbatim>\<open>cl_platform_id\<close>, \<^verbatim>\<open>cl_device_id\<close>, \<^verbatim>\<open>cl_context\<close>, \<^verbatim>\<open>cl_mem\<close>, ...) are
  natural numbers, \<open>NULL\<close> is 0. A \<^verbatim>\<open>double\<close> is a real number (rounding is not modelled;
  no theorem below depends on the value of a floating-point operation).
\<close>

type_synonym c_int = "32 word"
type_synonym cl_int = "32 word"
type_synonym c_double = real
type_synonym handle = nat
type_synonym cl_device_type = "64 word"

definition NULL :: handle where "NULL = 0"
definition CL_SUCCESS :: cl_int where "CL_SUCCESS = 0"
definition EXIT_SUCCESS :: c_int where "EXIT_SUCCESS = 0"
definition EXIT_FAILURE :: c_int where "EXIT_FAILURE = 1"
definition CL_DEVICE_TYPE_CPU :: cl_device_type where "CL_DEVICE_TYPE_CPU = push_bit 1 1"
definition CL_DEVICE_TYPE_GPU :: cl_device_type where "CL_DEVICE_TYPE_GPU = push_bit 2 1"

text \<open>
  \<^verbatim>\<open>const int LENGTH = 1024 * 1024 * 75;\<close> (line 37; the name \<open>LENGTH\<close> is taken by the
  word library).
\<close>

definition LENGTH_const :: nat where "LENGTH_const = 1024 * 1024 * 75"

text \<open>
  \<^verbatim>\<open>sizeof(int)\<close>, the element size of the host arrays (lines 58-63), and \<^verbatim>\<open>sizeof(float)\<close>,
  which the buffer sizes are written with (lines 173-192): both 4 bytes where \<^verbatim>\<open>int\<close> has
  32 bits and \<^verbatim>\<open>float\<close> is the IEEE single format.
\<close>

definition sizeof_int :: nat where "sizeof_int = 4"
definition sizeof_float :: nat where "sizeof_float = 4"

text \<open>C's \<^verbatim>\<open>%\<close> on \<^verbatim>\<open>int\<close> truncates towards zero: \<open>smod\<close> on the signed values.\<close>

definition c_rem :: "c_int \<Rightarrow> c_int \<Rightarrow> c_int" where
  "c_rem a b = word_of_int (sint a smod sint b)"

section \<open>The kernel and the device memory\<close>

text \<open>
  Device memory is a store from buffer handles to arrays of \<^verbatim>\<open>int\<close>. A load or store out
  of a buffer's range, or through a handle that is no buffer, is undefined behaviour on
  the device: \<open>None\<close>.
\<close>

type_synonym device_memory = "handle \<rightharpoonup> c_int list"

definition load :: "device_memory \<Rightarrow> handle \<Rightarrow> nat \<Rightarrow> c_int option" where
  "load mem p i =
     (case mem p of
        None \<Rightarrow> None
      | Some xs \<Rightarrow> if i < length xs then Some (xs ! i) else None)"

definition store :: "device_memory \<Rightarrow> handle \<Rightarrow> nat \<Rightarrow> c_int \<Rightarrow> device_memory option" where
  "store mem p i v =
     (case mem p of
        None \<Rightarrow> None
      | Some xs \<Rightarrow> if i < length xs then Some (mem(p \<mapsto> xs[i := v])) else None)"

text \<open>
  The kernel of \<^verbatim>\<open>OpenCL_code\<close> (lines 39-49), for the work item whose
  \<^verbatim>\<open>get_global_id(0)\<close> is \<open>gid\<close>:
  \<^verbatim>\<open>
  int i = get_global_id(0);
  result[i] = 2 * ((a[i] * b[i]) + (b[i] * c[i]) +  (a[i] * c[i]));
  \<close>
\<close>

definition cuboid_area ::
  "handle \<Rightarrow> handle \<Rightarrow> handle \<Rightarrow> handle \<Rightarrow> nat \<Rightarrow> device_memory \<Rightarrow> device_memory option" where
  "cuboid_area a b c result gid mem =
     (let i = gid in
      case load mem a i of None \<Rightarrow> None | Some ai \<Rightarrow>
      case load mem b i of None \<Rightarrow> None | Some bi \<Rightarrow>
      case load mem c i of None \<Rightarrow> None | Some ci \<Rightarrow>
        store mem result i (2 * ((ai * bi) + (bi * ci) + (ai * ci))))"

text \<open>
  An NDRange launch runs one work item per global id. The work items are run one after
  the other, in the order given; \<open>None\<close> when one of them has undefined behaviour.
\<close>

fun run_work_items ::
  "(nat \<Rightarrow> device_memory \<Rightarrow> device_memory option) \<Rightarrow> nat list \<Rightarrow> device_memory
     \<Rightarrow> device_memory option" where
  "run_work_items k [] mem = Some mem"
| "run_work_items k (gid # gids) mem =
     (case k gid mem of None \<Rightarrow> None | Some mem' \<Rightarrow> run_work_items k gids mem')"

definition ndrange :: "handle \<Rightarrow> handle \<Rightarrow> handle \<Rightarrow> handle \<Rightarrow> nat \<Rightarrow> device_memory
     \<Rightarrow> device_memory option" where
  "ndrange a b c result global_size mem =
     run_work_items (cuboid_area a b c result) [0..<global_size] mem"

section \<open>The environment of a run\<close>

text \<open>
  What one call of \<^verbatim>\<open>printf\<close> writes to stdout: one constructor for each format string
  of \<^verbatim>\<open>main\<close>, with the values of its arguments.
\<close>

datatype printf_call =
    Found_0_platforms
  | Failed_device_type
  | Device_type_GPU
  | Device_type_CPU
  | Device_type_other
  | Failed_compute_units
  | Total_compute_units c_int
  | Failed_build cl_int
  | Build_log
  | Kernel_ran_in c_double
  | Failed_read_output cl_int
  | Sequential_ran_in c_double
  | Sequential_ratio "c_double option"
  | Item c_int c_int c_int c_int c_int
  | More_items c_int
  | Final_newline

datatype mem_flags = CL_MEM_READ_ONLY | CL_MEM_WRITE_ONLY

datatype device_info = CL_DEVICE_TYPE | CL_DEVICE_MAX_COMPUTE_UNITS

text \<open>
  The observable actions of a run, in the order they happen: every call of the OpenCL
  API with the arguments that matter, every reading of the clock, every \<^verbatim>\<open>printf\<close>, and
  the report of \<^verbatim>\<open>checkError\<close> on a failed status.
\<close>

datatype event =
    GetPlatformIDs nat
  | GetDeviceIDs handle cl_device_type
  | GetDeviceInfo handle device_info
  | CreateContext handle
  | CreateCommandQueue handle handle
  | CreateProgramWithSource handle
  | BuildProgram handle
  | GetProgramBuildInfo handle handle
  | CreateKernel handle string
  | CreateBuffer handle mem_flags nat
  | EnqueueWriteBuffer handle handle nat
  | SetKernelArg handle nat handle
  | Wtime
  | EnqueueNDRangeKernel handle handle nat
  | Finish handle
  | EnqueueReadBuffer handle handle nat
  | ReleaseMemObject handle
  | ReleaseProgram handle
  | ReleaseKernel handle
  | ReleaseCommandQueue handle
  | ReleaseContext handle
  | Printf printf_call
  | Error_report string cl_int

text \<open>
  The C library and the OpenCL runtime are parameters of a run. \<open>rand_sequence e k\<close> is
  what the \<open>k\<close>-th call of \<^verbatim>\<open>rand()\<close> returns in a process that never calls \<^verbatim>\<open>srand\<close>
  (the sequence of seed 1, by the C standard), \<open>wtime_readings e k\<close> what the \<open>k\<close>-th call
  of \<^verbatim>\<open>wtime()\<close> returns. \<open>platform_ids\<close> are the installed platforms in enumeration
  order, \<open>get_device_ids_reply e p\<close> the status of \<^verbatim>\<open>clGetDeviceIDs\<close> on platform \<open>p\<close> for
  one GPU and the device it writes on success. Every other field is the status (and the
  value written on success) of one call site of \<^verbatim>\<open>main\<close>; the four buffers and the four
  kernel arguments are numbered 0 to 3 in source order. \<open>uninitialised\<close> is the content
  of freshly allocated device memory.
\<close>

record env =
  rand_sequence :: "nat \<Rightarrow> c_int"
  wtime_readings :: "nat \<Rightarrow> c_double"
  platform_ids :: "handle list"
  get_platform_count_status :: cl_int
  get_platform_ids_status :: cl_int
  get_device_ids_reply :: "handle \<Rightarrow> cl_int \<times> handle"
  device_type_reply :: "cl_int \<times> cl_device_type"
  compute_units_reply :: "cl_int \<times> c_int"
  create_context_status :: cl_int
  create_command_queue_status :: cl_int
  create_program_status :: cl_int
  build_program_status :: cl_int
  create_kernel_status :: cl_int
  create_buffer_status :: "nat \<Rightarrow> cl_int"
  write_buffer_status :: "nat \<Rightarrow> cl_int"
  set_kernel_arg_status :: "nat \<Rightarrow> cl_int"
  enqueue_kernel_status :: cl_int
  finish_status :: cl_int
  read_buffer_status :: cl_int
  uninitialised :: "nat \<Rightarrow> c_int"

text \<open>
  How far a run has come: still running, ended with an exit status (\<^verbatim>\<open>return\<close> from
  \<^verbatim>\<open>main\<close> or \<^verbatim>\<open>exit\<close>), or undefined behaviour: an access outside an array on the
  host or the device, or a call the runtime reports as a success although its arguments
  break the contract of the API.
\<close>

datatype outcome = Running | Exited c_int | Undefined_behaviour

text \<open>
  The state of a run: the local variables of \<^verbatim>\<open>main\<close> under their own names, and the
  world around them: the actions so far, the device memory, the arguments bound to the
  kernel, the next fresh handle of the runtime, and how often \<^verbatim>\<open>rand\<close> and \<^verbatim>\<open>wtime\<close>
  have been called. (\<^verbatim>\<open>context\<close> is \<open>ctx\<close> here: the name is a keyword of Isabelle.)
\<close>

record state =
  outcome :: outcome
  trace :: "event list"
  source_a :: "c_int list"
  source_b :: "c_int list"
  source_c :: "c_int list"
  result_opencl :: "c_int list"
  result_sequential :: "c_int list"
  err :: cl_int
  numPlatforms :: nat
  Platform :: "handle list"
  device_id :: handle
  device_type :: cl_device_type
  comp_units :: c_int
  ctx :: handle
  commands :: handle
  program :: handle
  kernel_cuboid_area :: handle
  d_a :: handle
  d_b :: handle
  d_c :: handle
  d_result :: handle
  cl_time :: c_double
  seq_time :: c_double
  device_mem :: device_memory
  kernel_args :: "nat \<rightharpoonup> handle"
  next_handle :: handle
  rand_calls :: nat
  wtime_calls :: nat

section \<open>Statements and control flow\<close>

text \<open>
  A statement is a function from state to state. \<open>steps\<close> runs statements in sequence and
  stops as soon as the run is over; \<open>for_loop i n body\<close> is
  \<^verbatim>\<open>for (; i < n; i++) body\<close>.
\<close>

fun steps :: "(state \<Rightarrow> state) list \<Rightarrow> state \<Rightarrow> state" where
  "steps [] s = s"
| "steps (f # fs) s = (if outcome s = Running then steps fs (f s) else s)"

function for_loop :: "nat \<Rightarrow> nat \<Rightarrow> (nat \<Rightarrow> state \<Rightarrow> state) \<Rightarrow> state \<Rightarrow> state" where
  "for_loop i n body s =
     (if i < n \<and> outcome s = Running then for_loop (i + 1) n body (body i s) else s)"
  by pat_completeness auto
termination
  by (relation "measure (\<lambda>(i, n, body, s). n - i)") auto

declare for_loop.simps [simp del]

definition emit :: "event \<Rightarrow> state \<Rightarrow> state" where
  "emit ev s = s\<lparr>trace := trace s @ [ev]\<rparr>"

definition printf :: "printf_call \<Rightarrow> state \<Rightarrow> state" where
  "printf line s = emit (Printf line) s"

definition exit_with :: "c_int \<Rightarrow> state \<Rightarrow> state" where
  "exit_with code s = s\<lparr>outcome := Exited code\<rparr>"

definition undefined_behaviour :: "state \<Rightarrow> state" where
  "undefined_behaviour s = s\<lparr>outcome := Undefined_behaviour\<rparr>"

text \<open>
  Modelled from the spec: the macro \<^verbatim>\<open>checkError\<close> of \<^verbatim>\<open>err_code.h\<close>, which is not among
  the sources. The spec (section 7): every call's status is checked immediately after the
  call; any non-success status is fatal to the run; the failure is reported (error
  description and status code) and the process terminates with a failure exit code.
\<close>

definition checkError :: "cl_int \<Rightarrow> string \<Rightarrow> state \<Rightarrow> state" where
  "checkError status operation s =
     (if status \<noteq> CL_SUCCESS
      then exit_with EXIT_FAILURE (emit (Error_report operation status) s)
      else s)"

section \<open>The C library\<close>

definition rand :: "env \<Rightarrow> state \<Rightarrow> c_int \<times> state" where
  "rand e s = (rand_sequence e (rand_calls s), s\<lparr>rand_calls := rand_calls s + 1\<rparr>)"

definition wtime :: "env \<Rightarrow> state \<Rightarrow> c_double \<times> state" where
  "wtime e s = (wtime_readings e (wtime_calls s), (emit Wtime s)\<lparr>wtime_calls := wtime_calls s + 1\<rparr>)"

text \<open>Division of doubles; \<open>None\<close> is the infinity or NaN of a division by zero.\<close>

definition double_div :: "c_double \<Rightarrow> c_double \<Rightarrow> c_double option" where
  "double_div x y = (if y = 0 then None else Some (x / y))"

section \<open>The OpenCL runtime\<close>

text \<open>
  Each call returns its status, taken from the environment, and what it writes through
  its out-parameters; a failed call writes nothing. Objects the runtime creates get the
  next fresh handle, so no two of them share one; a failed creation returns \<open>NULL\<close>.
\<close>

definition clGetPlatformIDs_count :: "env \<Rightarrow> state \<Rightarrow> (cl_int \<times> nat) \<times> state" where
  "clGetPlatformIDs_count e s =
     (let status = get_platform_count_status e
      in ((status, if status = CL_SUCCESS then length (platform_ids e) else numPlatforms s),
          emit (GetPlatformIDs 0) s))"

definition clGetPlatformIDs :: "env \<Rightarrow> nat \<Rightarrow> state \<Rightarrow> (cl_int \<times> handle list) \<times> state" where
  "clGetPlatformIDs e num_entries s =
     (let status = get_platform_ids_status e
      in ((status, if status = CL_SUCCESS then take num_entries (platform_ids e) else Platform s),
          emit (GetPlatformIDs num_entries) s))"

definition clGetDeviceIDs :: "env \<Rightarrow> handle \<Rightarrow> cl_device_type \<Rightarrow> state \<Rightarrow> (cl_int \<times> handle) \<times> state" where
  "clGetDeviceIDs e platform ty s =
     (let (status, dev) = get_device_ids_reply e platform
      in ((status, if status = CL_SUCCESS then dev else device_id s),
          emit (GetDeviceIDs platform ty) s))"

definition clGetDeviceInfo_type :: "env \<Rightarrow> handle \<Rightarrow> state \<Rightarrow> (cl_int \<times> cl_device_type) \<times> state" where
  "clGetDeviceInfo_type e dev s =
     (let (status, ty) = device_type_reply e
      in ((status, if status = CL_SUCCESS then ty else device_type s),
          emit (GetDeviceInfo dev CL_DEVICE_TYPE) s))"

definition clGetDeviceInfo_units :: "env \<Rightarrow> handle \<Rightarrow> state \<Rightarrow> (cl_int \<times> c_int) \<times> state" where
  "clGetDeviceInfo_units e dev s =
     (let (status, units) = compute_units_reply e
      in ((status, if status = CL_SUCCESS then units else comp_units s),
          emit (GetDeviceInfo dev CL_DEVICE_MAX_COMPUTE_UNITS) s))"

definition create_object :: "cl_int \<Rightarrow> event \<Rightarrow> state \<Rightarrow> (handle \<times> cl_int) \<times> state" where
  "create_object status ev s =
     (if status = CL_SUCCESS
      then ((next_handle s, status), (emit ev s)\<lparr>next_handle := next_handle s + 1\<rparr>)
      else ((NULL, status), emit ev s))"

definition clCreateContext :: "env \<Rightarrow> handle \<Rightarrow> state \<Rightarrow> (handle \<times> cl_int) \<times> state" where
  "clCreateContext e dev s = create_object (create_context_status e) (CreateContext dev) s"

definition clCreateCommandQueue :: "env \<Rightarrow> handle \<Rightarrow> handle \<Rightarrow> state \<Rightarrow> (handle \<times> cl_int) \<times> state" where
  "clCreateCommandQueue e c dev s =
     create_object (create_command_queue_status e) (CreateCommandQueue c dev) s"

definition clCreateProgramWithSource :: "env \<Rightarrow> handle \<Rightarrow> state \<Rightarrow> (handle \<times> cl_int) \<times> state" where
  "clCreateProgramWithSource e c s =
     create_object (create_program_status e) (CreateProgramWithSource c) s"

definition clBuildProgram :: "env \<Rightarrow> handle \<Rightarrow> state \<Rightarrow> cl_int \<times> state" where
  "clBuildProgram e p s = (build_program_status e, emit (BuildProgram p) s)"

definition clGetProgramBuildInfo :: "handle \<Rightarrow> handle \<Rightarrow> state \<Rightarrow> state" where
  "clGetProgramBuildInfo p dev s = emit (GetProgramBuildInfo p dev) s"

definition clCreateKernel :: "env \<Rightarrow> handle \<Rightarrow> string \<Rightarrow> state \<Rightarrow> (handle \<times> cl_int) \<times> state" where
  "clCreateKernel e p name s = create_object (create_kernel_status e) (CreateKernel p name) s"

text \<open>
  A buffer of \<open>nbytes\<close> bytes holds \<open>nbytes div sizeof_int\<close> elements of \<^verbatim>\<open>int\<close>. A blocking
  write copies that many elements of the host array into the buffer, a blocking read
  copies them back; the transfer is complete when the call returns.
\<close>

definition clCreateBuffer ::
  "env \<Rightarrow> nat \<Rightarrow> handle \<Rightarrow> mem_flags \<Rightarrow> nat \<Rightarrow> state \<Rightarrow> (handle \<times> cl_int) \<times> state" where
  "clCreateBuffer e k c flags nbytes s =
     (case create_object (create_buffer_status e k) (CreateBuffer c flags nbytes) s of
        ((h, status), s') \<Rightarrow>
          ((h, status),
           if status = CL_SUCCESS
           then s'\<lparr>device_mem := (device_mem s')(h \<mapsto> map (uninitialised e) [0..<nbytes div sizeof_int])\<rparr>
           else s'))"

definition clEnqueueWriteBuffer ::
  "env \<Rightarrow> nat \<Rightarrow> handle \<Rightarrow> handle \<Rightarrow> nat \<Rightarrow> c_int list \<Rightarrow> state \<Rightarrow> cl_int \<times> state" where
  "clEnqueueWriteBuffer e k queue buf nbytes host s =
     (let status = write_buffer_status e k;
          count = nbytes div sizeof_int;
          s' = emit (EnqueueWriteBuffer queue buf nbytes) s
      in (status,
          if status \<noteq> CL_SUCCESS then s'
          else case device_mem s' buf of
            None \<Rightarrow> undefined_behaviour s'
          | Some old \<Rightarrow>
              if count \<le> length old \<and> count \<le> length host
              then s'\<lparr>device_mem := (device_mem s')(buf \<mapsto> take count host @ drop count old)\<rparr>
              else undefined_behaviour s'))"

definition clEnqueueReadBuffer ::
  "env \<Rightarrow> handle \<Rightarrow> handle \<Rightarrow> nat \<Rightarrow> c_int list \<Rightarrow> state \<Rightarrow> (cl_int \<times> c_int list) \<times> state" where
  "clEnqueueReadBuffer e queue buf nbytes host s =
     (let status = read_buffer_status e;
          count = nbytes div sizeof_int;
          s' = emit (EnqueueReadBuffer queue buf nbytes) s
      in if status \<noteq> CL_SUCCESS then ((status, host), s')
         else case device_mem s' buf of
           None \<Rightarrow> ((status, host), undefined_behaviour s')
         | Some xs \<Rightarrow>
             if count \<le> length xs \<and> count \<le> length host
             then ((status, take count xs @ drop count host), s')
             else ((status, host), undefined_behaviour s'))"

definition clSetKernelArg :: "env \<Rightarrow> handle \<Rightarrow> nat \<Rightarrow> handle \<Rightarrow> state \<Rightarrow> cl_int \<times> state" where
  "clSetKernelArg e k arg_index buf s =
     (let status = set_kernel_arg_status e arg_index;
          s' = emit (SetKernelArg k arg_index buf) s
      in (status,
          if status = CL_SUCCESS then s'\<lparr>kernel_args := (kernel_args s')(arg_index \<mapsto> buf)\<rparr>
          else s'))"

text \<open>
  The queue is in order and the host reads device memory only after \<^verbatim>\<open>clFinish\<close> and a
  blocking read, so the launch is modelled as running the work items when it is
  enqueued: the kernel \<open>cuboid_area\<close> on the four bound arguments, once for each global
  id below \<open>global_size\<close>.
\<close>

definition clEnqueueNDRangeKernel ::
  "env \<Rightarrow> handle \<Rightarrow> handle \<Rightarrow> nat \<Rightarrow> state \<Rightarrow> cl_int \<times> state" where
  "clEnqueueNDRangeKernel e queue k global_size s =
     (let status = enqueue_kernel_status e;
          s' = emit (EnqueueNDRangeKernel queue k global_size) s
      in (status,
          if status \<noteq> CL_SUCCESS then s'
          else case (kernel_args s' 0, kernel_args s' 1, kernel_args s' 2, kernel_args s' 3) of
            (Some a, Some b, Some c, Some result) \<Rightarrow>
              (case ndrange a b c result global_size (device_mem s') of
                 None \<Rightarrow> undefined_behaviour s'
               | Some mem' \<Rightarrow> s'\<lparr>device_mem := mem'\<rparr>)
          | _ \<Rightarrow> undefined_behaviour s'))"

definition clFinish :: "env \<Rightarrow> handle \<Rightarrow> state \<Rightarrow> cl_int \<times> state" where
  "clFinish e queue s = (finish_status e, emit (Finish queue) s)"

definition clReleaseMemObject :: "handle \<Rightarrow> state \<Rightarrow> state" where
  "clReleaseMemObject buf s = (emit (ReleaseMemObject buf) s)\<lparr>device_mem := (device_mem s)(buf := None)\<rparr>"

definition clReleaseProgram :: "handle \<Rightarrow> state \<Rightarrow> state" where
  "clReleaseProgram p s = emit (ReleaseProgram p) s"

definition clReleaseKernel :: "handle \<Rightarrow> state \<Rightarrow> state" where
  "clReleaseKernel k s = emit (ReleaseKernel k) s"

definition clReleaseCommandQueue :: "handle \<Rightarrow> state \<Rightarrow> state" where
  "clReleaseCommandQueue queue s = emit (ReleaseCommandQueue queue) s"

definition clReleaseContext :: "handle \<Rightarrow> state \<Rightarrow> state" where
  "clReleaseContext c s = emit (ReleaseContext c) s"

section \<open>The program\<close>

text \<open>
  \<^verbatim>\<open>main\<close>, statement by statement, for an element count \<open>n\<close> in the place of the constant
  \<^verbatim>\<open>LENGTH\<close>. Lines 56-77: the five host arrays are allocated by \<^verbatim>\<open>calloc\<close> (taken to
  succeed), so they hold \<open>n\<close> zeros; \<^verbatim>\<open>device_id\<close> is \<open>NULL\<close>; the other locals are not
  initialised and are not read before they are assigned.
\<close>

definition initial_state :: "nat \<Rightarrow> state" where
  "initial_state n =
     \<lparr>outcome = Running, trace = [],
      source_a = replicate n 0, source_b = replicate n 0, source_c = replicate n 0,
      result_opencl = replicate n 0, result_sequential = replicate n 0,
      err = 0, numPlatforms = 0, Platform = [], device_id = NULL, device_type = 0,
      comp_units = 0, ctx = NULL, commands = NULL, program = NULL, kernel_cuboid_area = NULL,
      d_a = NULL, d_b = NULL, d_c = NULL, d_result = NULL, cl_time = 0, seq_time = 0,
      device_mem = Map.empty, kernel_args = Map.empty, next_handle = 1,
      rand_calls = 0, wtime_calls = 0\<rparr>"

text \<open>Lines 80-84: the input generator.\<close>

definition fill_body :: "env \<Rightarrow> nat \<Rightarrow> state \<Rightarrow> state" where
  "fill_body e i = steps
     [\<lambda>s. case rand e s of (r, s') \<Rightarrow>
        if i < length (source_a s') then s'\<lparr>source_a := (source_a s')[i := c_rem r 9 + 1]\<rparr>
        else undefined_behaviour s',
      \<lambda>s. case rand e s of (r, s') \<Rightarrow>
        if i < length (source_b s') then s'\<lparr>source_b := (source_b s')[i := c_rem r 9 + 1]\<rparr>
        else undefined_behaviour s',
      \<lambda>s. case rand e s of (r, s') \<Rightarrow>
        if i < length (source_c s') then s'\<lparr>source_c := (source_c s')[i := c_rem r 9 + 1]\<rparr>
        else undefined_behaviour s']"

definition fill_vectors :: "env \<Rightarrow> nat \<Rightarrow> state \<Rightarrow> state" where
  "fill_vectors e n = for_loop 0 n (fill_body e)"

text \<open>Lines 88-102: the number of platforms, then their ids.\<close>

definition get_platforms :: "env \<Rightarrow> state \<Rightarrow> state" where
  "get_platforms e = steps
     [\<lambda>s. case clGetPlatformIDs_count e s of ((status, num), s') \<Rightarrow>
        s'\<lparr>err := status, numPlatforms := num\<rparr>,
      \<lambda>s. checkError (err s) ''Finding platforms'' s,
      \<lambda>s. if numPlatforms s = 0
           then exit_with EXIT_FAILURE (printf Found_0_platforms s)
           else s,
      \<lambda>s. case clGetPlatformIDs e (numPlatforms s) s of ((status, ids), s') \<Rightarrow>
        s'\<lparr>err := status, Platform := ids\<rparr>,
      \<lambda>s. checkError (err s) ''Getting platforms'' s]"

text \<open>
  Lines 105-112: the loop that secures a GPU, with its \<^verbatim>\<open>break\<close>; \<open>n\<close> is \<^verbatim>\<open>numPlatforms\<close>.
  The array \<^verbatim>\<open>Platform\<close> has \<^verbatim>\<open>numPlatforms\<close> elements; a read beyond what the runtime
  wrote is undefined behaviour.
\<close>

function secure_gpu_loop :: "env \<Rightarrow> nat \<Rightarrow> nat \<Rightarrow> state \<Rightarrow> state" where
  "secure_gpu_loop e i n s =
     (if i < n then
        (if i < length (Platform s) then
           (case clGetDeviceIDs e (Platform s ! i) CL_DEVICE_TYPE_GPU s of
              ((status, dev), s') \<Rightarrow>
                (let s'' = s'\<lparr>err := status, device_id := dev\<rparr>
                 in if err s'' = CL_SUCCESS then s'' else secure_gpu_loop e (i + 1) n s''))
         else undefined_behaviour s)
      else s)"
  by pat_completeness auto
termination
  by (relation "measure (\<lambda>(e, i, n, s). n - i)") auto

declare secure_gpu_loop.simps [simp del]

text \<open>Lines 114-115: \<^verbatim>\<open>if (device_id == NULL) checkError(err, "Finding a device");\<close>\<close>

definition check_device_found :: "state \<Rightarrow> state" where
  "check_device_found s =
     (if device_id s = NULL then checkError (err s) ''Finding a device'' s else s)"

text \<open>Lines 105-115.\<close>

definition secure_gpu :: "env \<Rightarrow> state \<Rightarrow> state" where
  "secure_gpu e = steps
     [\<lambda>s. secure_gpu_loop e 0 (numPlatforms s) s,
      check_device_found]"

text \<open>Lines 125-130: the device-type line.\<close>

definition print_device_type :: "state \<Rightarrow> state" where
  "print_device_type s =
     (if device_type s = CL_DEVICE_TYPE_GPU then printf Device_type_GPU s
      else if device_type s = CL_DEVICE_TYPE_CPU then printf Device_type_CPU s
      else printf Device_type_other s)"

text \<open>Lines 118-130.\<close>

definition get_device_type :: "env \<Rightarrow> state \<Rightarrow> state" where
  "get_device_type e = steps
     [\<lambda>s. case clGetDeviceInfo_type e (device_id s) s of ((status, ty), s') \<Rightarrow>
        s'\<lparr>err := status, device_type := ty\<rparr>,
      \<lambda>s. if err s \<noteq> CL_SUCCESS
           then exit_with EXIT_FAILURE (printf Failed_device_type s)
           else s,
      print_device_type]"

text \<open>Lines 134-141.\<close>

definition get_compute_units :: "env \<Rightarrow> state \<Rightarrow> state" where
  "get_compute_units e = steps
     [\<lambda>s. case clGetDeviceInfo_units e (device_id s) s of ((status, units), s') \<Rightarrow>
        s'\<lparr>err := status, comp_units := units\<rparr>,
      \<lambda>s. if err s \<noteq> CL_SUCCESS
           then exit_with EXIT_FAILURE (printf Failed_compute_units s)
           else s,
      \<lambda>s. printf (Total_compute_units (comp_units s)) s]"

text \<open>Lines 144-170: context, command queue, program, build, kernel.\<close>

definition build_kernel :: "env \<Rightarrow> state \<Rightarrow> state" where
  "build_kernel e = steps
     [\<lambda>s. case clCreateContext e (device_id s) s of ((h, status), s') \<Rightarrow>
        s'\<lparr>ctx := h, err := status\<rparr>,
      \<lambda>s. checkError (err s) ''Creating context'' s,
      \<lambda>s. case clCreateCommandQueue e (ctx s) (device_id s) s of ((h, status), s') \<Rightarrow>
        s'\<lparr>commands := h, err := status\<rparr>,
      \<lambda>s. checkError (err s) ''Creating command queue'' s,
      \<lambda>s. case clCreateProgramWithSource e (ctx s) s of ((h, status), s') \<Rightarrow>
        s'\<lparr>program := h, err := status\<rparr>,
      \<lambda>s. checkError (err s) ''Creating program'' s,
      \<lambda>s. case clBuildProgram e (program s) s of (status, s') \<Rightarrow> s'\<lparr>err := status\<rparr>,
      \<lambda>s. if err s \<noteq> CL_SUCCESS
           then steps
             [printf (Failed_build (err s)),
              clGetProgramBuildInfo (program s) (device_id s),
              printf Build_log,
              exit_with EXIT_FAILURE] s
           else s,
      \<lambda>s. case clCreateKernel e (program s) ''cuboid_area'' s of ((h, status), s') \<Rightarrow>
        s'\<lparr>kernel_cuboid_area := h, err := status\<rparr>,
      \<lambda>s. checkError (err s) ''Creating kernel'' s]"

text \<open>Lines 173-183: the four device buffers, each of \<^verbatim>\<open>sizeof(float) * LENGTH\<close> bytes.\<close>

definition create_buffers :: "env \<Rightarrow> nat \<Rightarrow> state \<Rightarrow> state" where
  "create_buffers e n = steps
     [\<lambda>s. case clCreateBuffer e 0 (ctx s) CL_MEM_READ_ONLY (sizeof_float * n) s of
        ((h, status), s') \<Rightarrow> s'\<lparr>d_a := h, err := status\<rparr>,
      \<lambda>s. checkError (err s) ''Creating buffer d_a'' s,
      \<lambda>s. case clCreateBuffer e 1 (ctx s) CL_MEM_READ_ONLY (sizeof_float * n) s of
        ((h, status), s') \<Rightarrow> s'\<lparr>d_b := h, err := status\<rparr>,
      \<lambda>s. checkError (err s) ''Creating buffer d_b'' s,
      \<lambda>s. case clCreateBuffer e 2 (ctx s) CL_MEM_READ_ONLY (sizeof_float * n) s of
        ((h, status), s') \<Rightarrow> s'\<lparr>d_c := h, err := status\<rparr>,
      \<lambda>s. checkError (err s) ''Creating buffer d_c'' s,
      \<lambda>s. case clCreateBuffer e 3 (ctx s) CL_MEM_WRITE_ONLY (sizeof_float * n) s of
        ((h, status), s') \<Rightarrow> s'\<lparr>d_result := h, err := status\<rparr>,
      \<lambda>s. checkError (err s) ''Creating buffer d_result'' s]"

text \<open>Lines 186-193: the three blocking uploads.\<close>

definition write_buffers :: "env \<Rightarrow> nat \<Rightarrow> state \<Rightarrow> state" where
  "write_buffers e n = steps
     [\<lambda>s. case clEnqueueWriteBuffer e 0 (commands s) (d_a s) (sizeof_float * n) (source_a s) s of
        (status, s') \<Rightarrow> s'\<lparr>err := status\<rparr>,
      \<lambda>s. checkError (err s) ''Copying source_a to device at d_a'' s,
      \<lambda>s. case clEnqueueWriteBuffer e 1 (commands s) (d_b s) (sizeof_float * n) (source_b s) s of
        (status, s') \<Rightarrow> s'\<lparr>err := status\<rparr>,
      \<lambda>s. checkError (err s) ''Copying source_b to device at d_b'' s,
      \<lambda>s. case clEnqueueWriteBuffer e 2 (commands s) (d_c s) (sizeof_float * n) (source_c s) s of
        (status, s') \<Rightarrow> s'\<lparr>err := status\<rparr>,
      \<lambda>s. checkError (err s) ''Copying source_c to device at d_c'' s]"

text \<open>Lines 196-200: the four arguments; the statuses are or-ed and checked once.\<close>

definition set_kernel_args :: "env \<Rightarrow> state \<Rightarrow> state" where
  "set_kernel_args e = steps
     [\<lambda>s. case clSetKernelArg e (kernel_cuboid_area s) 0 (d_a s) s of
        (status, s') \<Rightarrow> s'\<lparr>err := status\<rparr>,
      \<lambda>s. case clSetKernelArg e (kernel_cuboid_area s) 1 (d_b s) s of
        (status, s') \<Rightarrow> s'\<lparr>err := err s' OR status\<rparr>,
      \<lambda>s. case clSetKernelArg e (kernel_cuboid_area s) 2 (d_c s) s of
        (status, s') \<Rightarrow> s'\<lparr>err := err s' OR status\<rparr>,
      \<lambda>s. case clSetKernelArg e (kernel_cuboid_area s) 3 (d_result s) s of
        (status, s') \<Rightarrow> s'\<lparr>err := err s' OR status\<rparr>,
      \<lambda>s. checkError (err s) ''Setting kernel arguments'' s]"

text \<open>Lines 202-215: the timed launch.\<close>

definition timed_launch :: "env \<Rightarrow> nat \<Rightarrow> state \<Rightarrow> state" where
  "timed_launch e n = steps
     [\<lambda>s. case wtime e s of (t, s') \<Rightarrow> s'\<lparr>cl_time := t\<rparr>,
      \<lambda>s. case clEnqueueNDRangeKernel e (commands s) (kernel_cuboid_area s) n s of
        (status, s') \<Rightarrow> s'\<lparr>err := status\<rparr>,
      \<lambda>s. checkError (err s) ''Enqueueing kernel'' s,
      \<lambda>s. case clFinish e (commands s) s of (status, s') \<Rightarrow> s'\<lparr>err := status\<rparr>,
      \<lambda>s. checkError (err s) ''Waiting for kernel to finish'' s,
      \<lambda>s. case wtime e s of (t, s') \<Rightarrow> s'\<lparr>cl_time := t - cl_time s'\<rparr>,
      \<lambda>s. printf (Kernel_ran_in (cl_time s)) s]"

text \<open>Lines 218-223: the blocking readback.\<close>

definition read_back :: "env \<Rightarrow> nat \<Rightarrow> state \<Rightarrow> state" where
  "read_back e n = steps
     [\<lambda>s. case clEnqueueReadBuffer e (commands s) (d_result s) (sizeof_float * n) (result_opencl s) s of
        ((status, host), s') \<Rightarrow> s'\<lparr>err := status, result_opencl := host\<rparr>,
      \<lambda>s. if err s \<noteq> CL_SUCCESS
           then exit_with 1 (printf (Failed_read_output (err s)) s)
           else s]"

text \<open>Lines 226-235: the sequential path, its time and the ratio.\<close>

definition sequential_body :: "nat \<Rightarrow> state \<Rightarrow> state" where
  "sequential_body i s =
     (if i < length (source_a s) \<and> i < length (source_b s) \<and> i < length (source_c s)
         \<and> i < length (result_sequential s)
      then s\<lparr>result_sequential := (result_sequential s)
             [i := 2 * ((source_a s ! i * source_b s ! i) + (source_b s ! i * source_c s ! i)
                          + (source_a s ! i * source_c s ! i))]\<rparr>
      else undefined_behaviour s)"

definition sequential_test :: "env \<Rightarrow> nat \<Rightarrow> state \<Rightarrow> state" where
  "sequential_test e n = steps
     [\<lambda>s. case wtime e s of (t, s') \<Rightarrow> s'\<lparr>seq_time := t\<rparr>,
      for_loop 0 n sequential_body,
      \<lambda>s. case wtime e s of (t, s') \<Rightarrow> s'\<lparr>seq_time := t - seq_time s'\<rparr>,
      \<lambda>s. printf (Sequential_ran_in (seq_time s)) s,
      \<lambda>s. printf (Sequential_ratio (double_div (seq_time s) (cl_time s))) s]"

text \<open>Lines 238-247: the first 100 items, then \<^verbatim>\<open>LENGTH - 100\<close>.\<close>

definition print_item :: "nat \<Rightarrow> state \<Rightarrow> state" where
  "print_item i s =
     (if i < length (source_a s) \<and> i < length (source_b s) \<and> i < length (source_c s)
         \<and> i < length (result_opencl s) \<and> i < length (result_sequential s)
      then printf (Item (source_a s ! i) (source_b s ! i) (source_c s ! i)
                        (result_opencl s ! i) (result_sequential s ! i)) s
      else undefined_behaviour s)"

definition print_result :: "nat \<Rightarrow> state \<Rightarrow> state" where
  "print_result n = steps
     [for_loop 0 100 print_item,
      \<lambda>s. printf (More_items (word_of_nat n - 100)) s]"

text \<open>
  Lines 250-266: the releases, \<^verbatim>\<open>free\<close> of the host arrays, the last \<^verbatim>\<open>printf\<close> and
  \<^verbatim>\<open>return 0\<close>. The host arrays are not read after \<^verbatim>\<open>free\<close>; the record keeps their last
  contents.
\<close>

definition cleanup :: "state \<Rightarrow> state" where
  "cleanup = steps
     [\<lambda>s. clReleaseMemObject (d_a s) s,
      \<lambda>s. clReleaseMemObject (d_b s) s,
      \<lambda>s. clReleaseMemObject (d_c s) s,
      \<lambda>s. clReleaseProgram (program s) s,
      \<lambda>s. clReleaseKernel (kernel_cuboid_area s) s,
      \<lambda>s. clReleaseCommandQueue (commands s) s,
      \<lambda>s. clReleaseContext (ctx s) s,
      printf Final_newline,
      exit_with 0]"

definition run :: "nat \<Rightarrow> env \<Rightarrow> state" where
  "run n e = steps
     [fill_vectors e n, get_platforms e, secure_gpu e, get_device_type e, get_compute_units e,
      build_kernel e, create_buffers e n, write_buffers e n, set_kernel_args e,
      timed_launch e n, read_back e n, sequential_test e n, print_result n, cleanup]
     (initial_state n)"

definition main :: "env \<Rightarrow> state" where
  "main e = run LENGTH_const e"

text \<open>The run up to line 235: both results are computed, nothing of them is printed yet.\<close>

definition computed :: "nat \<Rightarrow> env \<Rightarrow> state" where
  "computed n e = steps
     [fill_vectors e n, get_platforms e, secure_gpu e, get_device_type e, get_compute_units e,
      build_kernel e, create_buffers e n, write_buffers e n, set_kernel_args e,
      timed_launch e n, read_back e n, sequential_test e n]
     (initial_state n)"

text \<open>What a run wrote to stdout.\<close>

definition stdout :: "state \<Rightarrow> printf_call list" where
  "stdout s = concat (map (\<lambda>ev. case ev of Printf line \<Rightarrow> [line] | _ \<Rightarrow> []) (trace s))"

section \<open>Vocabulary of the properties\<close>

text \<open>
  The arrays the input generator produces: the \<open>i\<close>-th triple takes the calls
  \<open>3 * i\<close>, \<open>3 * i + 1\<close> and \<open>3 * i + 2\<close> of \<^verbatim>\<open>rand\<close>; \<open>k\<close> is the position in the triple.
\<close>

definition generated :: "env \<Rightarrow> nat \<Rightarrow> nat \<Rightarrow> c_int list" where
  "generated e k n = map (\<lambda>i. c_rem (rand_sequence e (3 * i + k)) 9 + 1) [0..<n]"

text \<open>
  The formula as the spec words it, \<open>2*(a*b + b*c + a*c)\<close>, on 32-bit integers and on
  the integers of mathematics.
\<close>

definition surface_area :: "c_int \<Rightarrow> c_int \<Rightarrow> c_int \<Rightarrow> c_int" where
  "surface_area a b c = 2 * (a * b + b * c + a * c)"

definition area_int :: "int \<Rightarrow> int \<Rightarrow> int \<Rightarrow> int" where
  "area_int x y z = 2 * (x * y + y * z + x * z)"

definition surface_areas :: "c_int list \<Rightarrow> c_int list \<Rightarrow> c_int list \<Rightarrow> nat \<Rightarrow> c_int list" where
  "surface_areas a b c n = map (\<lambda>i. surface_area (a ! i) (b ! i) (c ! i)) [0..<n]"

text \<open>The first \<open>m\<close> item lines of the report.\<close>

definition item_lines ::
  "c_int list \<Rightarrow> c_int list \<Rightarrow> c_int list \<Rightarrow> c_int list \<Rightarrow> c_int list \<Rightarrow> nat \<Rightarrow> printf_call list" where
  "item_lines a b c r_opencl r_seq m =
     map (\<lambda>i. Item (a ! i) (b ! i) (c ! i) (r_opencl ! i) (r_seq ! i)) [0..<m]"

definition device_type_line :: "cl_device_type \<Rightarrow> printf_call" where
  "device_type_line ty =
     (if ty = CL_DEVICE_TYPE_GPU then Device_type_GPU
      else if ty = CL_DEVICE_TYPE_CPU then Device_type_CPU
      else Device_type_other)"

text \<open>
  Device selection: a platform yields a GPU when \<^verbatim>\<open>clGetDeviceIDs\<close> succeeds on it;
  \<open>requested e ps\<close> are the platforms of \<open>ps\<close> up to and including the first that
  yields one; \<open>selected_device\<close> is the device that one writes (\<open>d0\<close> when none does),
  \<open>last_status\<close> the status of the last request made.
\<close>

definition gpu_found :: "env \<Rightarrow> handle \<Rightarrow> bool" where
  "gpu_found e p \<longleftrightarrow> fst (get_device_ids_reply e p) = CL_SUCCESS"

definition requested :: "env \<Rightarrow> handle list \<Rightarrow> handle list" where
  "requested e ps =
     takeWhile (\<lambda>p. \<not> gpu_found e p) ps @ take 1 (dropWhile (\<lambda>p. \<not> gpu_found e p) ps)"

definition selected_device :: "env \<Rightarrow> handle list \<Rightarrow> handle \<Rightarrow> handle" where
  "selected_device e ps d0 =
     (case find (gpu_found e) ps of Some p \<Rightarrow> snd (get_device_ids_reply e p) | None \<Rightarrow> d0)"

definition last_status :: "env \<Rightarrow> handle list \<Rightarrow> cl_int \<Rightarrow> cl_int" where
  "last_status e ps st0 =
     (case find (gpu_found e) ps of
        Some p \<Rightarrow> CL_SUCCESS
      | None \<Rightarrow> if ps = [] then st0 else fst (get_device_ids_reply e (last ps)))"

text \<open>
  Every call of the run succeeds: the platforms are enumerated and there is one, some
  platform yields a GPU, and every other call site reports \<open>CL_SUCCESS\<close>.
\<close>

definition calls_succeed :: "env \<Rightarrow> bool" where
  "calls_succeed e \<longleftrightarrow>
     get_platform_count_status e = CL_SUCCESS \<and> platform_ids e \<noteq> [] \<and>
     get_platform_ids_status e = CL_SUCCESS \<and>
     find (gpu_found e) (platform_ids e) \<noteq> None \<and>
     fst (device_type_reply e) = CL_SUCCESS \<and> fst (compute_units_reply e) = CL_SUCCESS \<and>
     create_context_status e = CL_SUCCESS \<and> create_command_queue_status e = CL_SUCCESS \<and>
     create_program_status e = CL_SUCCESS \<and> build_program_status e = CL_SUCCESS \<and>
     create_kernel_status e = CL_SUCCESS \<and>
     create_buffer_status e 0 = CL_SUCCESS \<and> create_buffer_status e 1 = CL_SUCCESS \<and>
     create_buffer_status e 2 = CL_SUCCESS \<and> create_buffer_status e 3 = CL_SUCCESS \<and>
     write_buffer_status e 0 = CL_SUCCESS \<and> write_buffer_status e 1 = CL_SUCCESS \<and>
     write_buffer_status e 2 = CL_SUCCESS \<and>
     set_kernel_arg_status e 0 = CL_SUCCESS \<and> set_kernel_arg_status e 1 = CL_SUCCESS \<and>
     set_kernel_arg_status e 2 = CL_SUCCESS \<and> set_kernel_arg_status e 3 = CL_SUCCESS \<and>
     enqueue_kernel_status e = CL_SUCCESS \<and> finish_status e = CL_SUCCESS \<and>
     read_buffer_status e = CL_SUCCESS"

text \<open>
  The actions of a run in which every call succeeds, in three parts: up to the upload of
  the inputs and the binding of the arguments, the timed launch, and the rest. The
  runtime hands out the handles 1 to 8 (context, queue, program, kernel, then the four
  buffers); the device is the selected one.
\<close>

definition setup_trace :: "nat \<Rightarrow> env \<Rightarrow> event list" where
  "setup_trace n e =
     (let dev = selected_device e (platform_ids e) NULL in
      [GetPlatformIDs 0, GetPlatformIDs (length (platform_ids e))] @
      map (\<lambda>p. GetDeviceIDs p CL_DEVICE_TYPE_GPU) (requested e (platform_ids e)) @
      [GetDeviceInfo dev CL_DEVICE_TYPE,
       Printf (device_type_line (snd (device_type_reply e))),
       GetDeviceInfo dev CL_DEVICE_MAX_COMPUTE_UNITS,
       Printf (Total_compute_units (snd (compute_units_reply e))),
       CreateContext dev,
       CreateCommandQueue 1 dev,
       CreateProgramWithSource 1,
       BuildProgram 3,
       CreateKernel 3 ''cuboid_area'',
       CreateBuffer 1 CL_MEM_READ_ONLY (sizeof_float * n),
       CreateBuffer 1 CL_MEM_READ_ONLY (sizeof_float * n),
       CreateBuffer 1 CL_MEM_READ_ONLY (sizeof_float * n),
       CreateBuffer 1 CL_MEM_WRITE_ONLY (sizeof_float * n),
       EnqueueWriteBuffer 2 5 (sizeof_float * n),
       EnqueueWriteBuffer 2 6 (sizeof_float * n),
       EnqueueWriteBuffer 2 7 (sizeof_float * n),
       SetKernelArg 4 0 5,
       SetKernelArg 4 1 6,
       SetKernelArg 4 2 7,
       SetKernelArg 4 3 8])"

definition launch_trace :: "nat \<Rightarrow> env \<Rightarrow> event list" where
  "launch_trace n e =
     [Wtime,
      EnqueueNDRangeKernel 2 4 n,
      Finish 2,
      Wtime,
      Printf (Kernel_ran_in (wtime_readings e 1 - wtime_readings e 0))]"

definition report_trace :: "nat \<Rightarrow> env \<Rightarrow> event list" where
  "report_trace n e =
     (let a = generated e 0 n; b = generated e 1 n; c = generated e 2 n;
          areas = surface_areas a b c n
      in [EnqueueReadBuffer 2 8 (sizeof_float * n),
          Wtime,
          Wtime,
          Printf (Sequential_ran_in (wtime_readings e 3 - wtime_readings e 2)),
          Printf (Sequential_ratio (double_div (wtime_readings e 3 - wtime_readings e 2)
                                               (wtime_readings e 1 - wtime_readings e 0)))] @
         map Printf (item_lines a b c areas areas 100) @
         [Printf (More_items (word_of_nat n - 100))])"

definition cleanup_trace :: "event list" where
  "cleanup_trace =
     [ReleaseMemObject 5,
      ReleaseMemObject 6,
      ReleaseMemObject 7,
      ReleaseProgram 3,
      ReleaseKernel 4,
      ReleaseCommandQueue 2,
      ReleaseContext 1,
      Printf Final_newline]"

text \<open>The state in which such a run ends.\<close>

definition final_state :: "nat \<Rightarrow> env \<Rightarrow> state" where
  "final_state n e =
     (let a = generated e 0 n; b = generated e 1 n; c = generated e 2 n;
          areas = surface_areas a b c n
      in \<lparr>outcome = Exited 0,
          trace = setup_trace n e @ launch_trace n e @ report_trace n e @ cleanup_trace,
          source_a = a, source_b = b, source_c = c,
          result_opencl = areas, result_sequential = areas,
          err = CL_SUCCESS, numPlatforms = length (platform_ids e), Platform = platform_ids e,
          device_id = selected_device e (platform_ids e) NULL,
          device_type = snd (device_type_reply e), comp_units = snd (compute_units_reply e),
          ctx = 1, commands = 2, program = 3, kernel_cuboid_area = 4,
          d_a = 5, d_b = 6, d_c = 7, d_result = 8,
          cl_time = wtime_readings e 1 - wtime_readings e 0,
          seq_time = wtime_readings e 3 - wtime_readings e 2,
          device_mem = [8 \<mapsto> areas],
          kernel_args = [0 \<mapsto> 5, 1 \<mapsto> 6, 2 \<mapsto> 7, 3 \<mapsto> 8],
          next_handle = 9, rand_calls = 3 * n, wtime_calls = 4\<rparr>)"

text \<open>
  Environments to run the program in. In \<open>env_gpu\<close> every call succeeds; the second and
  the third of its three platforms have a GPU. \<open>scenario_env\<close> is the same with a
  \<^verbatim>\<open>rand\<close> that makes the generator produce the inputs of the spec's scenario,
  a = [1,2,3,4], b = [1,1,1,1], c = [2,2,2,2].
\<close>

definition env_gpu :: env where
  "env_gpu =
     \<lparr>rand_sequence = (\<lambda>k. word_of_nat (7 * k + 3)),
      wtime_readings = (\<lambda>k. real (2 * k + 1)),
      platform_ids = [7, 8, 9],
      get_platform_count_status = 0, get_platform_ids_status = 0,
      get_device_ids_reply =
        (\<lambda>p. if p = 8 then (0, 42) else if p = 9 then (0, 43) else (- 1, 0)),
      device_type_reply = (0, 4), compute_units_reply = (0, 16),
      create_context_status = 0, create_command_queue_status = 0, create_program_status = 0,
      build_program_status = 0, create_kernel_status = 0,
      create_buffer_status = (\<lambda>k. 0), write_buffer_status = (\<lambda>k. 0),
      set_kernel_arg_status = (\<lambda>k. 0), enqueue_kernel_status = 0, finish_status = 0,
      read_buffer_status = 0, uninitialised = (\<lambda>k. 57005)\<rparr>"

definition scenario_env :: env where
  "scenario_env =
     env_gpu\<lparr>rand_sequence :=
       (\<lambda>k. if k < 12 then [0, 0, 1, 1, 0, 1, 2, 0, 1, 3, 0, 1] ! k else 0)\<rparr>"

text \<open>
  \<open>env_no_platform\<close>: no platform is installed. \<open>env_other\<close>: another machine with the
  same C library: one platform, another device, another clock.
\<close>

definition env_no_platform :: env where
  "env_no_platform = env_gpu\<lparr>platform_ids := []\<rparr>"

definition env_other :: env where
  "env_other =
     env_gpu\<lparr>wtime_readings := (\<lambda>k. real (5 * k)), platform_ids := [3],
       get_device_ids_reply := (\<lambda>p. (0, 77)), device_type_reply := (0, 2)\<rparr>"

text \<open>\<open>env_no_gpu\<close>: three platforms, none of them has a GPU.\<close>

definition env_no_gpu :: env where
  "env_no_gpu = env_gpu\<lparr>get_device_ids_reply := (\<lambda>p. (- 1, 0))\<rparr>"

text \<open>
  The release calls of a run in their order; \<open>released_before x y\<close>: the call \<open>x\<close> occurs
  before the first call \<open>y\<close>. The buffer allocations of a run, as access mode and size in
  bytes. The actions strictly between the first and the second occurrence of an action.
\<close>

fun is_release :: "event \<Rightarrow> bool" where
  "is_release (ReleaseMemObject buf) = True"
| "is_release (ReleaseProgram p) = True"
| "is_release (ReleaseKernel k) = True"
| "is_release (ReleaseCommandQueue q) = True"
| "is_release (ReleaseContext c) = True"
| "is_release ev = False"

definition release_calls :: "state \<Rightarrow> event list" where
  "release_calls s = filter is_release (trace s)"

definition released_before :: "event \<Rightarrow> event \<Rightarrow> event list \<Rightarrow> bool" where
  "released_before x y evs \<longleftrightarrow> x \<in> set (takeWhile (\<lambda>ev. ev \<noteq> y) evs)"

definition buffer_allocations :: "state \<Rightarrow> (mem_flags \<times> nat) list" where
  "buffer_allocations s =
     concat (map (\<lambda>ev. case ev of CreateBuffer c flags nbytes \<Rightarrow> [(flags, nbytes)] | _ \<Rightarrow> [])
       (trace s))"

definition between_first_two :: "event \<Rightarrow> event list \<Rightarrow> event list" where
  "between_first_two x evs =
     takeWhile (\<lambda>ev. ev \<noteq> x) (tl (dropWhile (\<lambda>ev. ev \<noteq> x) evs))"

text \<open>
  Observations of a state: the input arrays; the requests for a device the run has made,
  as pairs of platform and device type in the order of the calls; and what the
  statements after the device selection leave alone.
\<close>

definition inputs :: "state \<Rightarrow> c_int list \<times> c_int list \<times> c_int list" where
  "inputs s = (source_a s, source_b s, source_c s)"

definition device_requests :: "state \<Rightarrow> (handle \<times> cl_device_type) list" where
  "device_requests s =
     concat (map (\<lambda>ev. case ev of GetDeviceIDs p ty \<Rightarrow> [(p, ty)] | _ \<Rightarrow> []) (trace s))"

definition kept ::
  "state \<Rightarrow> (c_int list \<times> c_int list \<times> c_int list) \<times> handle \<times> (handle \<times> cl_device_type) list" where
  "kept s = (inputs s, device_id s, device_requests s)"

definition results :: "state \<Rightarrow> c_int list \<times> c_int list" where
  "results s = (result_opencl s, result_sequential s)"

text \<open>The run up to the device selection (line 115).\<close>

definition selection :: "nat \<Rightarrow> env \<Rightarrow> state" where
  "selection n e = steps [fill_vectors e n, get_platforms e, secure_gpu e] (initial_state n)"

section \<open>Arithmetic of the generated values\<close>

lemma sint_word_of_int_32:
  "- 2147483648 \<le> k \<Longrightarrow> k < 2147483648 \<Longrightarrow> sint (word_of_int k :: 32 word) = k"
  by (simp add: sint_sbintrunc' signed_take_bit_int_eq_self)

lemma smod_nonneg: "0 \<le> (k::int) \<Longrightarrow> k smod 9 = k mod 9"
  by (simp add: smod_int_alt_def sgn_if)

lemma generated_value:
  assumes "0 \<le> sint r"
  shows "sint (c_rem r 9 + 1) = sint r mod 9 + 1"
proof -
  have eq: "c_rem r 9 + 1 = word_of_int (sint r mod 9 + 1)"
    using assms by (simp add: c_rem_def smod_nonneg)
  have "0 \<le> sint r mod 9" "sint r mod 9 < 9"
    by simp_all
  then show ?thesis
    unfolding eq by (intro sint_word_of_int_32) linarith+
qed

lemma generated_range:
  assumes "0 \<le> sint r"
  shows "1 \<le> sint (c_rem r 9 + 1)" and "sint (c_rem r 9 + 1) \<le> 9"
proof -
  have "0 \<le> sint r mod 9" "sint r mod 9 < 9"
    by simp_all
  then show "1 \<le> sint (c_rem r 9 + 1)" and "sint (c_rem r 9 + 1) \<le> 9"
    using generated_value [OF assms] by simp_all
qed

lemma product_bound:
  fixes x y :: int
  assumes "1 \<le> x" "x \<le> 9" "1 \<le> y" "y \<le> 9"
  shows "1 \<le> x * y" and "x * y \<le> 81"
proof -
  have "1 * 1 \<le> x * y"
    using assms by (intro mult_mono) simp_all
  then show "1 \<le> x * y" by simp
  have "x * y \<le> 9 * 9"
    using assms by (intro mult_mono) simp_all
  then show "x * y \<le> 81" by simp
qed

lemma product_exact:
  fixes a b :: "32 word"
  assumes "1 \<le> sint a" "sint a \<le> 9" "1 \<le> sint b" "sint b \<le> 9"
  shows "sint (a * b) = sint a * sint b"
proof -
  have eq: "a * b = word_of_int (sint a * sint b)"
    by simp
  have "1 \<le> sint a * sint b" "sint a * sint b \<le> 81"
    using assms product_bound by blast+
  then show ?thesis
    by (subst eq) (intro sint_word_of_int_32; linarith)
qed

lemma area_exact:
  fixes a b c :: "32 word"
  assumes "1 \<le> sint a" "sint a \<le> 9" "1 \<le> sint b" "sint b \<le> 9" "1 \<le> sint c" "sint c \<le> 9"
  shows "sint (2 * ((a * b) + (b * c) + (a * c))) = area_int (sint a) (sint b) (sint c)"
    and "area_int (sint a) (sint b) (sint c) \<le> 486"
    and "6 \<le> area_int (sint a) (sint b) (sint c)"
proof -
  have ab: "1 \<le> sint a * sint b" "sint a * sint b \<le> 81"
    using assms product_bound by blast+
  have bc: "1 \<le> sint b * sint c" "sint b * sint c \<le> 81"
    using assms product_bound by blast+
  have ac: "1 \<le> sint a * sint c" "sint a * sint c \<le> 81"
    using assms product_bound by blast+
  have eq: "2 * ((a * b) + (b * c) + (a * c)) =
    (word_of_int (area_int (sint a) (sint b) (sint c)) :: 32 word)"
    by (simp add: area_int_def)
  show "sint (2 * ((a * b) + (b * c) + (a * c))) = area_int (sint a) (sint b) (sint c)"
    unfolding eq using ab bc ac by (intro sint_word_of_int_32) (simp_all add: area_int_def)
  show "area_int (sint a) (sint b) (sint c) \<le> 486"
    using ab bc ac by (simp add: area_int_def)
  show "6 \<le> area_int (sint a) (sint b) (sint c)"
    using ab bc ac by (simp add: area_int_def)
qed

lemma sum_exact:
  fixes a b c :: "32 word"
  assumes "1 \<le> sint a" "sint a \<le> 9" "1 \<le> sint b" "sint b \<le> 9" "1 \<le> sint c" "sint c \<le> 9"
  shows "sint ((a * b) + (b * c)) = sint a * sint b + sint b * sint c"
    and "sint ((a * b) + (b * c) + (a * c)) = sint a * sint b + sint b * sint c + sint a * sint c"
proof -
  have ab: "1 \<le> sint a * sint b" "sint a * sint b \<le> 81"
    using assms product_bound by blast+
  have bc: "1 \<le> sint b * sint c" "sint b * sint c \<le> 81"
    using assms product_bound by blast+
  have ac: "1 \<le> sint a * sint c" "sint a * sint c \<le> 81"
    using assms product_bound by blast+
  have two: "(a * b) + (b * c) = (word_of_int (sint a * sint b + sint b * sint c) :: 32 word)"
    by simp
  have three: "(a * b) + (b * c) + (a * c) =
    (word_of_int (sint a * sint b + sint b * sint c + sint a * sint c) :: 32 word)"
    by simp
  show "sint ((a * b) + (b * c)) = sint a * sint b + sint b * sint c"
    using ab bc by (subst two) (intro sint_word_of_int_32; linarith)
  show "sint ((a * b) + (b * c) + (a * c)) = sint a * sint b + sint b * sint c + sint a * sint c"
    using ab bc ac by (subst three) (intro sint_word_of_int_32; linarith)
qed

section \<open>Sequencing and loops\<close>

lemma steps_not_Running: "outcome s \<noteq> Running \<Longrightarrow> steps fs s = s"
  by (cases fs) simp_all

lemma steps_append: "steps (fs @ gs) s = steps gs (steps fs s)"
  by (induction fs arbitrary: s) (simp_all add: steps_not_Running)

lemma for_loop_steps: "for_loop i n body s = steps (map body [i..<n]) s"
proof (induction i n body s rule: for_loop.induct)
  case (1 i n body s)
  show ?case
  proof (cases "i < n \<and> outcome s = Running")
    case True
    then show ?thesis
      using "1.IH" by (subst for_loop.simps) (simp add: upt_conv_Cons)
  next
    case False
    then show ?thesis
      by (subst for_loop.simps) (auto simp: steps_not_Running)
  qed
qed

text \<open>An invariant that implies that the run goes on holds when the loop is left.\<close>

lemma for_loop_rule:
  assumes "P i s" and "i \<le> n"
    and step: "\<And>j t. i \<le> j \<Longrightarrow> j < n \<Longrightarrow> P j t \<Longrightarrow> P (Suc j) (body j t)"
    and running: "\<And>j t. P j t \<Longrightarrow> outcome t = Running"
  shows "P n (for_loop i n body s)"
  using assms(1,2,3)
proof (induction "n - i" arbitrary: i s)
  case 0
  then show ?case by (subst for_loop.simps) simp
next
  case (Suc k)
  then have "i < n" by simp
  have "P (Suc i) (body i s)"
    using Suc.prems \<open>i < n\<close> by simp
  moreover have "k = n - Suc i"
    using Suc.hyps by simp
  ultimately have "P n (for_loop (Suc i) n body (body i s))"
    using Suc.hyps(1) [of "Suc i" "body i s"] Suc.prems(3) \<open>i < n\<close> by simp
  then show ?case
    using \<open>i < n\<close> running [OF Suc.prems(1)] by (subst for_loop.simps) simp
qed

lemma update_after_prefix:
  "length ys = j \<Longrightarrow> j < length xs \<Longrightarrow> (ys @ drop j xs)[j := v] = ys @ v # drop (Suc j) xs"
  by (simp add: list_update_append upd_conv_take_nth_drop drop_Suc tl_drop)

lemma length_generated [simp]: "length (generated e k n) = n"
  by (simp add: generated_def)

lemma length_surface_areas [simp]: "length (surface_areas a b c n) = n"
  by (simp add: surface_areas_def)

lemma surface_areas_Suc:
  "surface_areas a b c (Suc j) = surface_areas a b c j @ [surface_area (a ! j) (b ! j) (c ! j)]"
  by (simp add: surface_areas_def)

subsection \<open>The input generator\<close>

lemma fill_body_eq:
  assumes "outcome t = Running"
    and "j < length (source_a t)" and "j < length (source_b t)" and "j < length (source_c t)"
  shows "fill_body e j t =
    t\<lparr>source_a := (source_a t)[j := c_rem (rand_sequence e (rand_calls t)) 9 + 1],
      source_b := (source_b t)[j := c_rem (rand_sequence e (rand_calls t + 1)) 9 + 1],
      source_c := (source_c t)[j := c_rem (rand_sequence e (rand_calls t + 2)) 9 + 1],
      rand_calls := rand_calls t + 3\<rparr>"
  using assms by (intro state.equality) (simp_all add: fill_body_def rand_def)

lemma fill_vectors_eq:
  assumes "outcome s = Running" and "rand_calls s = 0"
    and "length (source_a s) = n" and "length (source_b s) = n" and "length (source_c s) = n"
  shows "fill_vectors e n s =
    s\<lparr>source_a := generated e 0 n, source_b := generated e 1 n, source_c := generated e 2 n,
      rand_calls := 3 * n\<rparr>"
proof -
  define P where "P j t \<longleftrightarrow>
    t = s\<lparr>source_a := generated e 0 j @ drop j (source_a s),
          source_b := generated e 1 j @ drop j (source_b s),
          source_c := generated e 2 j @ drop j (source_c s),
          rand_calls := 3 * j\<rparr>" for j t
  have "P n (for_loop 0 n (fill_body e) s)"
  proof (rule for_loop_rule)
    show "P 0 s"
      using assms by (simp add: P_def generated_def)
    show "0 \<le> n" by simp
    show "outcome t = Running" if "P j t" for j t
      using that assms(1) by (simp add: P_def)
    show "P (Suc j) (fill_body e j t)" if "j < n" and "P j t" for j t
    proof -
      have t: "t = s\<lparr>source_a := generated e 0 j @ drop j (source_a s),
          source_b := generated e 1 j @ drop j (source_b s),
          source_c := generated e 2 j @ drop j (source_c s),
          rand_calls := 3 * j\<rparr>"
        using that by (simp add: P_def)
      have "fill_body e j t =
        t\<lparr>source_a := (source_a t)[j := c_rem (rand_sequence e (rand_calls t)) 9 + 1],
          source_b := (source_b t)[j := c_rem (rand_sequence e (rand_calls t + 1)) 9 + 1],
          source_c := (source_c t)[j := c_rem (rand_sequence e (rand_calls t + 2)) 9 + 1],
          rand_calls := rand_calls t + 3\<rparr>"
        using assms \<open>j < n\<close> by (intro fill_body_eq) (simp_all add: t)
      then show ?thesis
        unfolding P_def using assms \<open>j < n\<close>
        by (simp add: t update_after_prefix) (simp add: generated_def)
    qed
  qed
  then show ?thesis
    using assms by (simp add: P_def fill_vectors_def)
qed

subsection \<open>The sequential loop and the print loop\<close>

lemma sequential_loop_eq:
  assumes "outcome s = Running"
    and "n \<le> length (source_a s)" and "n \<le> length (source_b s)" and "n \<le> length (source_c s)"
    and "length (result_sequential s) = n"
  shows "for_loop 0 n sequential_body s =
    s\<lparr>result_sequential := surface_areas (source_a s) (source_b s) (source_c s) n\<rparr>"
proof -
  define P where "P j t \<longleftrightarrow>
    t = s\<lparr>result_sequential := surface_areas (source_a s) (source_b s) (source_c s) j
            @ drop j (result_sequential s)\<rparr>" for j t
  have "P n (for_loop 0 n sequential_body s)"
  proof (rule for_loop_rule)
    show "P 0 s"
      by (simp add: P_def surface_areas_def)
    show "0 \<le> n" by simp
    show "outcome t = Running" if "P j t" for j t
      using that assms(1) by (simp add: P_def)
    show "P (Suc j) (sequential_body j t)" if "j < n" and "P j t" for j t
      using that assms unfolding P_def
      by (simp add: sequential_body_def update_after_prefix surface_areas_Suc surface_area_def)
  qed
  then show ?thesis
    using assms by (simp add: P_def)
qed

lemma print_loop_eq:
  assumes "outcome s = Running"
    and "m \<le> length (source_a s)" and "m \<le> length (source_b s)" and "m \<le> length (source_c s)"
    and "m \<le> length (result_opencl s)" and "m \<le> length (result_sequential s)"
  shows "for_loop 0 m print_item s =
    s\<lparr>trace := trace s @ map Printf (item_lines (source_a s) (source_b s) (source_c s)
                                      (result_opencl s) (result_sequential s) m)\<rparr>"
proof -
  define P where "P j t \<longleftrightarrow>
    t = s\<lparr>trace := trace s @ map Printf (item_lines (source_a s) (source_b s) (source_c s)
                                        (result_opencl s) (result_sequential s) j)\<rparr>" for j t
  have "P m (for_loop 0 m print_item s)"
  proof (rule for_loop_rule)
    show "P 0 s"
      by (simp add: P_def item_lines_def)
    show "0 \<le> m" by simp
    show "outcome t = Running" if "P j t" for j t
      using that assms(1) by (simp add: P_def)
    show "P (Suc j) (print_item j t)" if "j < m" and "P j t" for j t
      using that assms unfolding P_def
      by (simp add: print_item_def printf_def emit_def item_lines_def)
  qed
  then show ?thesis
    by (simp add: P_def)
qed

subsection \<open>The kernel launch\<close>

lemma run_work_items_append:
  "run_work_items k (xs @ ys) mem =
     (case run_work_items k xs mem of None \<Rightarrow> None | Some mem' \<Rightarrow> run_work_items k ys mem')"
  by (induction xs arbitrary: mem) (simp_all split: option.splits)

text \<open>
  On buffers of at least \<open>n\<close> elements, with the result buffer distinct from the inputs,
  the launch has no undefined behaviour and writes the \<open>n\<close> surface areas.
\<close>

lemma ndrange_eq:
  assumes "mem a = Some xa" and "mem b = Some xb" and "mem c = Some xc" and "mem r = Some xr"
    and "r \<noteq> a" and "r \<noteq> b" and "r \<noteq> c"
    and "n \<le> length xa" and "n \<le> length xb" and "n \<le> length xc" and "n \<le> length xr"
  shows "ndrange a b c r n mem = Some (mem(r \<mapsto> surface_areas xa xb xc n @ drop n xr))"
  using assms(8-11)
proof (induction n)
  case 0
  then show ?case
    using assms(4) by (simp add: ndrange_def surface_areas_def fun_upd_idem)
next
  case (Suc j)
  have "ndrange a b c r j mem = Some (mem(r \<mapsto> surface_areas xa xb xc j @ drop j xr))"
    using Suc.prems by (intro Suc.IH) simp_all
  moreover have "cuboid_area a b c r j (mem(r \<mapsto> surface_areas xa xb xc j @ drop j xr)) =
    Some (mem(r \<mapsto> surface_areas xa xb xc (Suc j) @ drop (Suc j) xr))"
    using assms(1-7) Suc.prems
    by (simp add: cuboid_area_def load_def store_def update_after_prefix
        surface_areas_Suc surface_area_def)
  ultimately show ?case
    by (auto simp: ndrange_def run_work_items_append)
qed

lemma ndrange_eq':
  assumes "mem a \<noteq> None" and "mem b \<noteq> None" and "mem c \<noteq> None" and "mem r \<noteq> None"
    and "r \<noteq> a" and "r \<noteq> b" and "r \<noteq> c"
    and "n \<le> length (the (mem a))" and "n \<le> length (the (mem b))"
    and "n \<le> length (the (mem c))" and "n \<le> length (the (mem r))"
  shows "ndrange a b c r n mem =
    Some (mem(r \<mapsto> surface_areas (the (mem a)) (the (mem b)) (the (mem c)) n @ drop n (the (mem r))))"
  using assms by (intro ndrange_eq) auto

subsection \<open>The loop that secures a GPU\<close>

lemma requested_Cons:
  "requested e (p # ps) = (if gpu_found e p then [p] else p # requested e ps)"
  by (simp add: requested_def)

lemma selected_device_Cons:
  "selected_device e (p # ps) d0 =
     (if gpu_found e p then snd (get_device_ids_reply e p) else selected_device e ps d0)"
  by (simp add: selected_device_def)

lemma last_status_Cons:
  "last_status e (p # ps) st0 =
     (if gpu_found e p then CL_SUCCESS else last_status e ps (fst (get_device_ids_reply e p)))"
  by (simp add: last_status_def split: option.splits)

lemma last_status_found:
  "find (gpu_found e) ps \<noteq> None \<Longrightarrow> last_status e ps st0 = 0"
  by (auto simp: last_status_def CL_SUCCESS_def)

lemma secure_gpu_loop_eq:
  assumes "i \<le> n" and "n = length (Platform s)"
  shows "secure_gpu_loop e i n s =
    s\<lparr>trace := trace s @ map (\<lambda>p. GetDeviceIDs p CL_DEVICE_TYPE_GPU)
                             (requested e (drop i (Platform s))),
      err := last_status e (drop i (Platform s)) (err s),
      device_id := selected_device e (drop i (Platform s)) (device_id s)\<rparr>"
  using assms
proof (induction "n - i" arbitrary: i s)
  case 0
  then show ?case
    by (subst secure_gpu_loop.simps)
      (simp add: requested_def last_status_def selected_device_def)
next
  case (Suc k)
  then have i: "i < n" "i < length (Platform s)"
    by simp_all
  obtain st dev where reply: "get_device_ids_reply e (Platform s ! i) = (st, dev)"
    by (cases "get_device_ids_reply e (Platform s ! i)")
  define s'' where "s'' = s\<lparr>trace := trace s @ [GetDeviceIDs (Platform s ! i) CL_DEVICE_TYPE_GPU],
    err := st, device_id := (if st = CL_SUCCESS then dev else device_id s)\<rparr>"
  have unfold: "secure_gpu_loop e i n s =
    (if st = CL_SUCCESS then s'' else secure_gpu_loop e (Suc i) n s'')"
    using i reply
    by (subst secure_gpu_loop.simps) (simp add: clGetDeviceIDs_def emit_def s''_def)
  have drop: "drop i (Platform s) = Platform s ! i # drop (Suc i) (Platform s)"
    using i by (simp add: Cons_nth_drop_Suc)
  show ?case
  proof (cases "st = CL_SUCCESS")
    case True
    then show ?thesis
      using reply unfolding unfold drop
      by (simp add: requested_Cons last_status_Cons selected_device_Cons gpu_found_def s''_def)
  next
    case False
    have "secure_gpu_loop e (Suc i) n s'' =
      s''\<lparr>trace := trace s'' @ map (\<lambda>p. GetDeviceIDs p CL_DEVICE_TYPE_GPU)
                               (requested e (drop (Suc i) (Platform s''))),
        err := last_status e (drop (Suc i) (Platform s'')) (err s''),
        device_id := selected_device e (drop (Suc i) (Platform s'')) (device_id s'')\<rparr>"
      using Suc.hyps(2) Suc.prems i by (intro Suc.hyps(1)) (simp_all add: s''_def)
    then show ?thesis
      using False reply unfolding unfold drop
      by (simp add: requested_Cons last_status_Cons selected_device_Cons gpu_found_def s''_def)
  qed
qed

lemma check_device_found_ok: "err s = 0 \<Longrightarrow> check_device_found s = s"
  by (simp add: check_device_found_def checkError_def CL_SUCCESS_def)

lemma print_device_type_eq: "print_device_type s = printf (device_type_line (device_type s)) s"
  by (simp add: print_device_type_def device_type_line_def)

section \<open>The run in which every call succeeds\<close>

lemmas api_defs =
  clGetPlatformIDs_count_def clGetPlatformIDs_def clGetDeviceIDs_def clGetDeviceInfo_type_def
  clGetDeviceInfo_units_def create_object_def clCreateContext_def clCreateCommandQueue_def
  clCreateProgramWithSource_def clBuildProgram_def clGetProgramBuildInfo_def clCreateKernel_def
  clCreateBuffer_def clEnqueueWriteBuffer_def clEnqueueReadBuffer_def clSetKernelArg_def
  clEnqueueNDRangeKernel_def clFinish_def clReleaseMemObject_def clReleaseProgram_def
  clReleaseKernel_def clReleaseCommandQueue_def clReleaseContext_def
  checkError_def emit_def printf_def exit_with_def undefined_behaviour_def wtime_def

lemmas phase_defs =
  get_platforms_def secure_gpu_def get_device_type_def get_compute_units_def build_kernel_def
  create_buffers_def write_buffers_def set_kernel_args_def timed_launch_def read_back_def
  sequential_test_def print_result_def cleanup_def

lemma run_success:
  assumes "calls_succeed e" and "100 \<le> n"
  shows "run n e = final_state n e"
  using assms
  by (simp add: run_def calls_succeed_def CL_SUCCESS_def initial_state_def fill_vectors_eq
     phase_defs api_defs secure_gpu_loop_eq Let_def case_prod_unfold NULL_def
     last_status_found sizeof_int_def sizeof_float_def EXIT_FAILURE_def
     check_device_found_ok print_device_type_eq ndrange_eq' sequential_loop_eq
     print_loop_eq final_state_def setup_trace_def launch_trace_def report_trace_def
     cleanup_trace_def)
    (simp (no_asm) add: eval_nat_numeral)

lemma main_success: "calls_succeed e \<Longrightarrow> main e = final_state LENGTH_const e"
  by (simp add: main_def run_success LENGTH_const_def)


section \<open>The two compute paths\<close>

lemma env_gpu_calls_succeed: "calls_succeed env_gpu"
  by (simp add: calls_succeed_def env_gpu_def CL_SUCCESS_def gpu_found_def)

lemma scenario_calls_succeed: "calls_succeed scenario_env"
  by (simp add: calls_succeed_def scenario_env_def env_gpu_def CL_SUCCESS_def gpu_found_def)

text \<open>
  When every call succeeds, the run reaches line 235 with the generated inputs in the
  source arrays and the surface areas in both result arrays, for every element count.
\<close>

lemma computed_results:
  assumes "calls_succeed e"
  shows "outcome (computed n e) = Running"
    and "source_a (computed n e) = generated e 0 n"
    and "source_b (computed n e) = generated e 1 n"
    and "source_c (computed n e) = generated e 2 n"
    and "result_opencl (computed n e) =
      surface_areas (generated e 0 n) (generated e 1 n) (generated e 2 n) n"
    and "result_sequential (computed n e) =
      surface_areas (generated e 0 n) (generated e 1 n) (generated e 2 n) n"
  using assms
  by (simp_all add: computed_def calls_succeed_def CL_SUCCESS_def initial_state_def fill_vectors_eq
     phase_defs api_defs secure_gpu_loop_eq Let_def case_prod_unfold NULL_def
     last_status_found sizeof_int_def sizeof_float_def EXIT_FAILURE_def
     check_device_found_ok print_device_type_eq ndrange_eq' sequential_loop_eq)

lemma c_rem_small: "c_rem 0 9 = 0" "c_rem 1 9 = 1" "c_rem 2 9 = 2" "c_rem 3 9 = 3"
  by (simp_all add: c_rem_def smod_int_alt_def)

lemma scenario_generated:
  "generated scenario_env 0 4 = [1, 2, 3, 4]"
  "generated scenario_env (Suc 0) 4 = [1, 1, 1, 1]"
  "generated scenario_env 2 4 = [2, 2, 2, 2]"
  by (simp_all add: generated_def scenario_env_def upt_conv_Cons c_rem_small)

lemma scenario_surface_areas:
  "surface_areas [1, 2, 3, 4] [1, 1, 1, 1] [2, 2, 2, 2] 4 = [10, 16, 22, 28]"
  by (simp add: surface_areas_def surface_area_def upt_conv_Cons)

section \<open>What the later statements leave alone\<close>

lemma proj_steps_Nil: "q (steps [] s) = q s"
  by simp

lemma proj_steps_Cons:
  assumes "\<And>t. q (f t) = q t" and "\<And>t. q (steps fs t) = q t"
  shows "q (steps (f # fs) s) = q s"
  using assms by simp

lemma proj_for_loop:
  assumes "\<And>j t. q (body j t) = q t"
  shows "q (for_loop i n body s) = q s"
proof -
  have "q (steps (map body xs) t) = q t" for xs t
    by (induction xs arbitrary: t) (simp_all add: assms)
  then show ?thesis
    by (simp add: for_loop_steps)
qed

subsection \<open>The input arrays are written by the generator only\<close>

lemma inputs_update [simp]:
  "inputs (s\<lparr>outcome := x1\<rparr>) = inputs s"
  "inputs (s\<lparr>trace := x2\<rparr>) = inputs s"
  "inputs (s\<lparr>err := x4\<rparr>) = inputs s"
  "inputs (s\<lparr>numPlatforms := x5\<rparr>) = inputs s"
  "inputs (s\<lparr>Platform := x6\<rparr>) = inputs s"
  "inputs (s\<lparr>device_id := x7\<rparr>) = inputs s"
  by (simp_all add: inputs_def)

lemma inputs_basic [simp]:
  "inputs (emit ev s) = inputs s"
  "inputs (printf line s) = inputs s"
  "inputs (exit_with code s) = inputs s"
  "inputs (undefined_behaviour s) = inputs s"
  "inputs (checkError st operation s) = inputs s"
  "inputs (check_device_found s) = inputs s"
  by (simp_all add: emit_def printf_def exit_with_def undefined_behaviour_def checkError_def
      check_device_found_def)

lemma inputs_enumeration [simp]:
  "inputs (snd (clGetPlatformIDs_count e s)) = inputs s"
  "inputs (snd (clGetPlatformIDs e num s)) = inputs s"
  "inputs (snd (clGetDeviceIDs e p ty s)) = inputs s"
  by (simp_all add: clGetPlatformIDs_count_def clGetPlatformIDs_def clGetDeviceIDs_def
      case_prod_unfold Let_def)

lemma inputs_secure_gpu_loop [simp]: "inputs (secure_gpu_loop e i n s) = inputs s"
proof (induction "n - i" arbitrary: i s)
  case 0
  then show ?case
    by (subst secure_gpu_loop.simps) simp
next
  case (Suc k)
  then have "k = n - (i + 1)"
    by simp
  then have "inputs (secure_gpu_loop e (i + 1) n t) = inputs t" for t
    by (rule Suc.hyps(1))
  then show ?case
    by (subst secure_gpu_loop.simps) (simp add: case_prod_unfold Let_def)
qed

lemma inputs_selection [simp]:
  "inputs (get_platforms e s) = inputs s"
  "inputs (secure_gpu e s) = inputs s"
  unfolding get_platforms_def secure_gpu_def
  by (intro proj_steps_Cons [where q = inputs] proj_steps_Nil [where q = inputs];
      simp add: case_prod_unfold)+

subsection \<open>The statements after the device selection\<close>

lemma kept_update [simp]:
  "kept (s\<lparr>outcome := x1\<rparr>) = kept s"
  "kept (s\<lparr>result_opencl := x2\<rparr>) = kept s"
  "kept (s\<lparr>result_sequential := x3\<rparr>) = kept s"
  "kept (s\<lparr>err := x4\<rparr>) = kept s"
  "kept (s\<lparr>device_type := x7\<rparr>) = kept s"
  "kept (s\<lparr>comp_units := x8\<rparr>) = kept s"
  "kept (s\<lparr>ctx := h1\<rparr>) = kept s"
  "kept (s\<lparr>commands := h2\<rparr>) = kept s"
  "kept (s\<lparr>program := h3\<rparr>) = kept s"
  "kept (s\<lparr>kernel_cuboid_area := h4\<rparr>) = kept s"
  "kept (s\<lparr>d_a := h5\<rparr>) = kept s"
  "kept (s\<lparr>d_b := h6\<rparr>) = kept s"
  "kept (s\<lparr>d_c := h7\<rparr>) = kept s"
  "kept (s\<lparr>d_result := h8\<rparr>) = kept s"
  "kept (s\<lparr>cl_time := t1\<rparr>) = kept s"
  "kept (s\<lparr>seq_time := t2\<rparr>) = kept s"
  "kept (s\<lparr>device_mem := m1\<rparr>) = kept s"
  "kept (s\<lparr>kernel_args := m2\<rparr>) = kept s"
  "kept (s\<lparr>next_handle := n1\<rparr>) = kept s"
  "kept (s\<lparr>wtime_calls := n2\<rparr>) = kept s"
  by (simp_all add: kept_def inputs_def device_requests_def)

lemma kept_emit:
  "kept (emit ev s) = (inputs s, device_id s,
     device_requests s @ (case ev of GetDeviceIDs p ty \<Rightarrow> [(p, ty)] | _ \<Rightarrow> []))"
  by (simp add: kept_def inputs_def device_requests_def emit_def)

lemma kept_basic [simp]:
  "kept (printf line s) = kept s"
  "kept (exit_with code s) = kept s"
  "kept (undefined_behaviour s) = kept s"
  "kept (checkError st operation s) = kept s"
  by (simp_all add: printf_def exit_with_def undefined_behaviour_def checkError_def kept_emit)
    (simp_all add: kept_def)

lemma kept_api [simp]:
  "kept (snd (wtime e s)) = kept s"
  "kept (snd (clGetDeviceInfo_type e dev s)) = kept s"
  "kept (snd (clGetDeviceInfo_units e dev s)) = kept s"
  "kept (snd (clBuildProgram e p s)) = kept s"
  "kept (clGetProgramBuildInfo p dev s) = kept s"
  "kept (snd (clFinish e q s)) = kept s"
  "kept (clReleaseMemObject buf s) = kept s"
  "kept (clReleaseProgram p s) = kept s"
  "kept (clReleaseKernel k s) = kept s"
  "kept (clReleaseCommandQueue q s) = kept s"
  "kept (clReleaseContext c s) = kept s"
  by (simp_all add: wtime_def clGetDeviceInfo_type_def clGetDeviceInfo_units_def
      clBuildProgram_def clGetProgramBuildInfo_def clFinish_def
      clReleaseMemObject_def clReleaseProgram_def clReleaseKernel_def clReleaseCommandQueue_def
      clReleaseContext_def case_prod_unfold Let_def kept_emit)
    (simp_all add: kept_def)

lemma kept_create [simp]:
  "kept (snd (clCreateContext e dev s)) = kept s"
  "kept (snd (clCreateCommandQueue e c dev s)) = kept s"
  "kept (snd (clCreateProgramWithSource e c s)) = kept s"
  "kept (snd (clCreateKernel e p name s)) = kept s"
  "kept (snd (clCreateBuffer e k c flags nbytes s)) = kept s"
  by (simp_all add: clCreateContext_def clCreateCommandQueue_def clCreateProgramWithSource_def
      clCreateKernel_def clCreateBuffer_def create_object_def case_prod_unfold kept_emit)
    (simp_all add: kept_def)

lemma kept_transfer [simp]:
  "kept (snd (clEnqueueWriteBuffer e k q buf nbytes host s)) = kept s"
  "kept (snd (clEnqueueReadBuffer e q buf nbytes host s)) = kept s"
  "kept (snd (clSetKernelArg e kern arg_index buf s)) = kept s"
  "kept (snd (clEnqueueNDRangeKernel e q kern global_size s)) = kept s"
  by (simp_all add: clEnqueueWriteBuffer_def clEnqueueReadBuffer_def clSetKernelArg_def
      clEnqueueNDRangeKernel_def Let_def kept_emit split: option.splits)
    (simp_all add: kept_def)

lemma kept_loops [simp]:
  "kept (for_loop i n sequential_body s) = kept s"
  "kept (for_loop i n print_item s) = kept s"
  by (rule proj_for_loop [where q = kept], simp add: sequential_body_def print_item_def)+

lemma kept_print_device_type [simp]: "kept (print_device_type s) = kept s"
  by (simp add: print_device_type_def)

lemma later_phases_kept [simp]:
  "kept (get_device_type e s) = kept s"
  "kept (get_compute_units e s) = kept s"
  "kept (build_kernel e s) = kept s"
  "kept (create_buffers e n s) = kept s"
  "kept (write_buffers e n s) = kept s"
  "kept (set_kernel_args e s) = kept s"
  "kept (timed_launch e n s) = kept s"
  "kept (read_back e n s) = kept s"
  "kept (sequential_test e n s) = kept s"
  "kept (print_result n s) = kept s"
  "kept (cleanup s) = kept s"
  unfolding phase_defs
  by (intro proj_steps_Cons [where q = kept] proj_steps_Nil [where q = kept];
      simp add: case_prod_unfold)+

text \<open>The run, split after the device selection.\<close>

lemma run_after_selection:
  "run n e = steps
     [get_device_type e, get_compute_units e, build_kernel e, create_buffers e n,
      write_buffers e n, set_kernel_args e, timed_launch e n, read_back e n,
      sequential_test e n, print_result n, cleanup] (selection n e)"
proof -
  have "[fill_vectors e n, get_platforms e, secure_gpu e, get_device_type e, get_compute_units e,
      build_kernel e, create_buffers e n, write_buffers e n, set_kernel_args e,
      timed_launch e n, read_back e n, sequential_test e n, print_result n, cleanup] =
    [fill_vectors e n, get_platforms e, secure_gpu e] @
    [get_device_type e, get_compute_units e, build_kernel e, create_buffers e n,
      write_buffers e n, set_kernel_args e, timed_launch e n, read_back e n,
      sequential_test e n, print_result n, cleanup]"
    by simp
  then show ?thesis
    unfolding run_def selection_def by (simp only: steps_append)
qed

lemma kept_run: "kept (run n e) = kept (selection n e)"
  unfolding run_after_selection
  by (intro proj_steps_Cons [where q = kept] proj_steps_Nil [where q = kept]; simp)

lemma selection_after_fill:
  "selection n e = steps [get_platforms e, secure_gpu e] (fill_vectors e n (initial_state n))"
  unfolding selection_def
  by (subst steps.simps(2)) (simp add: initial_state_def del: steps.simps)

lemma fill_initial_state:
  "fill_vectors e n (initial_state n) =
     (initial_state n)\<lparr>source_a := generated e 0 n, source_b := generated e 1 n,
       source_c := generated e 2 n, rand_calls := 3 * n\<rparr>"
  by (rule fill_vectors_eq) (simp_all add: initial_state_def)

lemma inputs_selection_state:
  "inputs (selection n e) = (generated e 0 n, generated e 1 n, generated e 2 n)"
proof -
  have "inputs (selection n e) = inputs (fill_vectors e n (initial_state n))"
    unfolding selection_after_fill
    by (intro proj_steps_Cons [where q = inputs] proj_steps_Nil [where q = inputs]; simp)
  then show ?thesis
    by (simp add: fill_initial_state inputs_def)
qed

lemma inputs_run: "inputs (run n e) = (generated e 0 n, generated e 1 n, generated e 2 n)"
  using kept_run [of n e] by (simp add: kept_def inputs_selection_state)

section \<open>Device selection\<close>

lemma run_stops_at_selection:
  "outcome (selection n e) \<noteq> Running \<Longrightarrow> run n e = selection n e"
  by (simp add: run_after_selection steps_not_Running)

lemma last_status_none:
  "find (gpu_found e) ps = None \<Longrightarrow> ps \<noteq> [] \<Longrightarrow> last_status e ps st0 \<noteq> 0"
proof -
  assume none: "find (gpu_found e) ps = None" and "ps \<noteq> []"
  then have "\<not> gpu_found e (last ps)"
    by (simp add: find_None_iff)
  then show ?thesis
    using none \<open>ps \<noteq> []\<close> by (simp add: last_status_def gpu_found_def CL_SUCCESS_def)
qed

lemma selected_device_none:
  "find (gpu_found e) ps = None \<Longrightarrow> selected_device e ps d0 = d0"
  by (simp add: selected_device_def)

lemma device_requests_trace [simp]:
  "device_requests (s\<lparr>trace := evs\<rparr>) =
     concat (map (\<lambda>ev. case ev of GetDeviceIDs p ty \<Rightarrow> [(p, ty)] | _ \<Rightarrow> []) evs)"
  by (simp add: device_requests_def)

text \<open>No platform: the run ends in \<open>get_platforms\<close>, before any request for a device.\<close>

lemma selection_no_platform:
  assumes "platform_ids e = []"
  shows "outcome (selection n e) = Exited EXIT_FAILURE"
    and "trace (selection n e) =
      GetPlatformIDs 0 #
      (if get_platform_count_status e = CL_SUCCESS then [Printf Found_0_platforms]
       else [Error_report ''Finding platforms'' (get_platform_count_status e)])"
    and "device_id (selection n e) = NULL"
  using assms
  by (simp_all add: selection_after_fill fill_vectors_eq initial_state_def
      get_platforms_def clGetPlatformIDs_count_def checkError_def emit_def printf_def
      exit_with_def Let_def)

text \<open>
  The platforms are enumerated: the requests go to the platforms in enumeration order, up
  to and including the first that yields a GPU; its device is selected; when none yields
  one, the run ends with a failure.
\<close>

lemma selection_enumerated:
  assumes "get_platform_count_status e = CL_SUCCESS" and "get_platform_ids_status e = CL_SUCCESS"
  shows "device_requests (selection n e) =
      map (\<lambda>p. (p, CL_DEVICE_TYPE_GPU)) (requested e (platform_ids e))"
    and "device_id (selection n e) = selected_device e (platform_ids e) NULL"
    and "find (gpu_found e) (platform_ids e) = None \<Longrightarrow>
      outcome (selection n e) = Exited EXIT_FAILURE"
proof -
  show "device_requests (selection n e) =
      map (\<lambda>p. (p, CL_DEVICE_TYPE_GPU)) (requested e (platform_ids e))"
    using assms
    by (cases "platform_ids e = []")
      (simp_all add: selection_after_fill fill_vectors_eq initial_state_def
        get_platforms_def secure_gpu_def clGetPlatformIDs_count_def clGetPlatformIDs_def
        checkError_def check_device_found_def emit_def printf_def exit_with_def Let_def
        secure_gpu_loop_eq CL_SUCCESS_def requested_def comp_def device_requests_def)
  show "device_id (selection n e) = selected_device e (platform_ids e) NULL"
    using assms
    by (cases "platform_ids e = []")
      (simp_all add: selection_after_fill fill_vectors_eq initial_state_def
        get_platforms_def secure_gpu_def clGetPlatformIDs_count_def clGetPlatformIDs_def
        checkError_def check_device_found_def emit_def printf_def exit_with_def Let_def
        secure_gpu_loop_eq CL_SUCCESS_def selected_device_def)
  show "outcome (selection n e) = Exited EXIT_FAILURE"
    if "find (gpu_found e) (platform_ids e) = None"
    using assms that
    by (cases "platform_ids e = []")
      (simp_all add: selection_after_fill fill_vectors_eq initial_state_def
        get_platforms_def secure_gpu_def clGetPlatformIDs_count_def clGetPlatformIDs_def
        checkError_def check_device_found_def emit_def printf_def exit_with_def Let_def
        secure_gpu_loop_eq CL_SUCCESS_def selected_device_none last_status_none NULL_def)
qed

section \<open>The results stay as computed\<close>

lemma run_after_computed: "run n e = steps [print_result n, cleanup] (computed n e)"
proof -
  have "[fill_vectors e n, get_platforms e, secure_gpu e, get_device_type e, get_compute_units e,
      build_kernel e, create_buffers e n, write_buffers e n, set_kernel_args e,
      timed_launch e n, read_back e n, sequential_test e n, print_result n, cleanup] =
    [fill_vectors e n, get_platforms e, secure_gpu e, get_device_type e, get_compute_units e,
      build_kernel e, create_buffers e n, write_buffers e n, set_kernel_args e,
      timed_launch e n, read_back e n, sequential_test e n] @ [print_result n, cleanup]"
    by simp
  then show ?thesis
    unfolding run_def computed_def by (simp only: steps_append)
qed

lemma results_update [simp]:
  "results (s\<lparr>outcome := x1\<rparr>) = results s"
  "results (s\<lparr>trace := x2\<rparr>) = results s"
  "results (s\<lparr>device_mem := x3\<rparr>) = results s"
  by (simp_all add: results_def)

lemma results_report [simp]:
  "results (print_result n s) = results s"
  "results (cleanup s) = results s"
proof -
  have item: "results (print_item j t) = results t" for j t
    by (simp add: print_item_def printf_def emit_def undefined_behaviour_def)
  have loop: "results (for_loop 0 100 print_item t) = results t" for t
    by (rule proj_for_loop [where q = results]) (rule item)
  show "results (print_result n s) = results s"
    unfolding print_result_def
    by (intro proj_steps_Cons [where q = results] proj_steps_Nil [where q = results];
        simp add: loop printf_def emit_def)
  show "results (cleanup s) = results s"
    unfolding cleanup_def
    by (intro proj_steps_Cons [where q = results] proj_steps_Nil [where q = results];
        simp add: printf_def emit_def exit_with_def clReleaseMemObject_def clReleaseProgram_def
          clReleaseKernel_def clReleaseCommandQueue_def clReleaseContext_def)
qed

lemma results_run: "results (run n e) = results (computed n e)"
  unfolding run_after_computed
  by (intro proj_steps_Cons [where q = results] proj_steps_Nil [where q = results]; simp)

lemma run_results:
  assumes "calls_succeed e"
  shows "result_opencl (run n e) =
      surface_areas (generated e 0 n) (generated e 1 n) (generated e 2 n) n"
    and "result_sequential (run n e) =
      surface_areas (generated e 0 n) (generated e 1 n) (generated e 2 n) n"
  using results_run [of n e] computed_results(5,6) [OF assms, of n]
  by (simp_all add: results_def)

lemma run_sources:
  "source_a (run n e) = generated e 0 n"
  "source_b (run n e) = generated e 1 n"
  "source_c (run n e) = generated e 2 n"
  using inputs_run [of n e] by (simp_all add: inputs_def)

lemma nth_generated:
  "i < n \<Longrightarrow> generated e k n ! i = c_rem (rand_sequence e (3 * i + k)) 9 + 1"
  by (simp add: generated_def)

lemma nth_surface_areas:
  "i < n \<Longrightarrow> surface_areas a b c n ! i = surface_area (a ! i) (b ! i) (c ! i)"
  by (simp add: surface_areas_def)

section \<open>Which runs succeed\<close>

text \<open>
  Before the last statement of \<open>cleanup\<close> no statement ends the run with the exit
  status 0.
\<close>

lemma nz_steps:
  assumes "\<And>f t. f \<in> set fs \<Longrightarrow> outcome t = Running \<Longrightarrow> outcome (f t) \<noteq> Exited 0"
    and "outcome s \<noteq> Exited 0"
  shows "outcome (steps fs s) \<noteq> Exited 0"
  using assms by (induction fs arbitrary: s) auto

lemma nz_steps_Nil: "outcome s \<noteq> Exited 0 \<Longrightarrow> outcome (steps [] s) \<noteq> Exited 0"
  by simp

lemma nz_steps_Cons:
  assumes "\<And>t. outcome t = Running \<Longrightarrow> outcome (f t) \<noteq> Exited 0"
    and "\<And>t. outcome t \<noteq> Exited 0 \<Longrightarrow> outcome (steps fs t) \<noteq> Exited 0"
    and "outcome s \<noteq> Exited 0"
  shows "outcome (steps (f # fs) s) \<noteq> Exited 0"
  using assms by simp

lemma nz_for_loop:
  assumes "\<And>j t. outcome t = Running \<Longrightarrow> outcome (body j t) \<noteq> Exited 0"
    and "outcome s \<noteq> Exited 0"
  shows "outcome (for_loop i n body s) \<noteq> Exited 0"
  unfolding for_loop_steps using assms by (intro nz_steps) auto

lemma nz_secure_gpu_loop:
  "outcome s = Running \<Longrightarrow> outcome (secure_gpu_loop e i n s) \<noteq> Exited 0"
proof (induction "n - i" arbitrary: i s)
  case 0
  then show ?case
    by (subst secure_gpu_loop.simps) simp
next
  case (Suc k)
  then have "k = n - (i + 1)"
    by simp
  then have "outcome t = Running \<Longrightarrow> outcome (secure_gpu_loop e (i + 1) n t) \<noteq> Exited 0" for t
    by (rule Suc.hyps(1))
  then show ?case
    using Suc.prems
    by (subst secure_gpu_loop.simps)
      (simp add: case_prod_unfold Let_def clGetDeviceIDs_def emit_def undefined_behaviour_def)
qed

lemma nz_phases:
  assumes "outcome s \<noteq> Exited 0"
  shows "outcome (fill_vectors e n s) \<noteq> Exited 0"
    and "outcome (get_platforms e s) \<noteq> Exited 0"
    and "outcome (secure_gpu e s) \<noteq> Exited 0"
    and "outcome (get_device_type e s) \<noteq> Exited 0"
    and "outcome (get_compute_units e s) \<noteq> Exited 0"
    and "outcome (build_kernel e s) \<noteq> Exited 0"
    and "outcome (create_buffers e n s) \<noteq> Exited 0"
    and "outcome (write_buffers e n s) \<noteq> Exited 0"
    and "outcome (set_kernel_args e s) \<noteq> Exited 0"
    and "outcome (timed_launch e n s) \<noteq> Exited 0"
    and "outcome (read_back e n s) \<noteq> Exited 0"
    and "outcome (sequential_test e n s) \<noteq> Exited 0"
    and "outcome (print_result n s) \<noteq> Exited 0"
proof -
  have body: "outcome (fill_body e j t) \<noteq> Exited 0" if "outcome t = Running" for j t
    unfolding fill_body_def using that
    by (intro nz_steps_Cons nz_steps_Nil;
        simp add: rand_def undefined_behaviour_def)
  show "outcome (fill_vectors e n s) \<noteq> Exited 0"
    unfolding fill_vectors_def using assms body by (intro nz_for_loop)
  have seq: "outcome (for_loop 0 n sequential_body t) \<noteq> Exited 0"
    if "outcome t = Running" for t
    using that by (intro nz_for_loop) (simp_all add: sequential_body_def undefined_behaviour_def)
  have item: "outcome (for_loop 0 100 print_item t) \<noteq> Exited 0"
    if "outcome t = Running" for t
    using that
    by (intro nz_for_loop)
      (simp_all add: print_item_def undefined_behaviour_def printf_def emit_def)
  note defs = api_defs check_device_found_def print_device_type_def case_prod_unfold Let_def
    EXIT_FAILURE_def nz_secure_gpu_loop seq item
  show "outcome (get_platforms e s) \<noteq> Exited 0"
    unfolding get_platforms_def using assms
    by (intro nz_steps_Cons nz_steps_Nil; simp add: defs)
  show "outcome (secure_gpu e s) \<noteq> Exited 0"
    unfolding secure_gpu_def using assms
    by (intro nz_steps_Cons nz_steps_Nil; simp add: defs)
  show "outcome (get_device_type e s) \<noteq> Exited 0"
    unfolding get_device_type_def using assms
    by (intro nz_steps_Cons nz_steps_Nil; simp add: defs)
  show "outcome (get_compute_units e s) \<noteq> Exited 0"
    unfolding get_compute_units_def using assms
    by (intro nz_steps_Cons nz_steps_Nil; simp add: defs)
  show "outcome (build_kernel e s) \<noteq> Exited 0"
    unfolding build_kernel_def using assms
    by (intro nz_steps_Cons nz_steps_Nil; simp add: defs)
  show "outcome (create_buffers e n s) \<noteq> Exited 0"
    unfolding create_buffers_def using assms
    by (intro nz_steps_Cons nz_steps_Nil; simp add: defs)
  show "outcome (write_buffers e n s) \<noteq> Exited 0"
    unfolding write_buffers_def using assms
    by (intro nz_steps_Cons nz_steps_Nil; simp add: defs split: option.splits)
  show "outcome (set_kernel_args e s) \<noteq> Exited 0"
    unfolding set_kernel_args_def using assms
    by (intro nz_steps_Cons nz_steps_Nil; simp add: defs)
  show "outcome (timed_launch e n s) \<noteq> Exited 0"
    unfolding timed_launch_def using assms
    by (intro nz_steps_Cons nz_steps_Nil; simp add: defs split: option.splits)
  show "outcome (read_back e n s) \<noteq> Exited 0"
    unfolding read_back_def using assms
    by (intro nz_steps_Cons nz_steps_Nil; simp add: defs split: option.splits)
  show "outcome (sequential_test e n s) \<noteq> Exited 0"
    unfolding sequential_test_def using assms
    by (intro nz_steps_Cons nz_steps_Nil; simp add: defs)
  show "outcome (print_result n s) \<noteq> Exited 0"
    unfolding print_result_def using assms
    by (intro nz_steps_Cons nz_steps_Nil; simp add: defs)
qed

text \<open>A phase that leaves the run going has seen every one of its calls succeed.\<close>

lemma running_steps_ConsE:
  assumes "outcome (steps (f # fs) s) = Running"
  obtains "outcome s = Running" and "outcome (f s) = Running"
    and "outcome (steps fs (f s)) = Running"
proof -
  have s: "outcome s = Running"
    using assms by (cases "outcome s = Running") simp_all
  then have rest: "outcome (steps fs (f s)) = Running"
    using assms by simp
  have "outcome (f s) = Running"
    using rest by (cases "outcome (f s) = Running") (simp_all add: steps_not_Running)
  then show ?thesis
    using s rest that by blast
qed

lemma running_get_device_type:
  "outcome (get_device_type e s) = Running \<Longrightarrow> fst (device_type_reply e) = CL_SUCCESS"
  unfolding get_device_type_def
  by (erule running_steps_ConsE,
      simp add: api_defs case_prod_unfold Let_def CL_SUCCESS_def EXIT_FAILURE_def
        del: steps.simps split: if_splits)+

lemma running_get_compute_units:
  "outcome (get_compute_units e s) = Running \<Longrightarrow> fst (compute_units_reply e) = CL_SUCCESS"
  unfolding get_compute_units_def
  by (erule running_steps_ConsE,
      simp add: api_defs case_prod_unfold Let_def CL_SUCCESS_def EXIT_FAILURE_def
        del: steps.simps split: if_splits)+

lemma running_build_kernel:
  "outcome (build_kernel e s) = Running \<Longrightarrow>
     create_context_status e = CL_SUCCESS \<and> create_command_queue_status e = CL_SUCCESS \<and>
     create_program_status e = CL_SUCCESS \<and> build_program_status e = CL_SUCCESS \<and>
     create_kernel_status e = CL_SUCCESS"
  unfolding build_kernel_def
  by (erule running_steps_ConsE,
      simp add: api_defs case_prod_unfold Let_def CL_SUCCESS_def EXIT_FAILURE_def
        del: steps.simps split: if_splits)+

lemma running_create_buffers:
  "outcome (create_buffers e n s) = Running \<Longrightarrow>
     create_buffer_status e 0 = CL_SUCCESS \<and> create_buffer_status e 1 = CL_SUCCESS \<and>
     create_buffer_status e 2 = CL_SUCCESS \<and> create_buffer_status e 3 = CL_SUCCESS"
  unfolding create_buffers_def
  by (erule running_steps_ConsE,
      simp add: api_defs case_prod_unfold Let_def CL_SUCCESS_def EXIT_FAILURE_def
        del: steps.simps split: if_splits)+

lemma running_write_buffers:
  "outcome (write_buffers e n s) = Running \<Longrightarrow>
     write_buffer_status e 0 = CL_SUCCESS \<and> write_buffer_status e 1 = CL_SUCCESS \<and>
     write_buffer_status e 2 = CL_SUCCESS"
  unfolding write_buffers_def
  by (erule running_steps_ConsE,
      simp add: api_defs case_prod_unfold Let_def CL_SUCCESS_def EXIT_FAILURE_def
        del: steps.simps split: if_splits option.splits)+

lemma running_set_kernel_args:
  "outcome (set_kernel_args e s) = Running \<Longrightarrow>
     set_kernel_arg_status e 0 = CL_SUCCESS \<and> set_kernel_arg_status e 1 = CL_SUCCESS \<and>
     set_kernel_arg_status e 2 = CL_SUCCESS \<and> set_kernel_arg_status e 3 = CL_SUCCESS"
  unfolding set_kernel_args_def
  by (erule running_steps_ConsE,
      simp add: api_defs case_prod_unfold Let_def CL_SUCCESS_def EXIT_FAILURE_def or_eq_0_iff
        del: steps.simps split: if_splits)+

lemma running_timed_launch:
  "outcome (timed_launch e n s) = Running \<Longrightarrow>
     enqueue_kernel_status e = CL_SUCCESS \<and> finish_status e = CL_SUCCESS"
  unfolding timed_launch_def
  by (erule running_steps_ConsE,
      simp add: api_defs case_prod_unfold Let_def CL_SUCCESS_def EXIT_FAILURE_def
        del: steps.simps split: if_splits option.splits)+

lemma running_read_back:
  "outcome (read_back e n s) = Running \<Longrightarrow> read_buffer_status e = CL_SUCCESS"
  unfolding read_back_def
  by (erule running_steps_ConsE,
      simp add: api_defs case_prod_unfold Let_def CL_SUCCESS_def EXIT_FAILURE_def
        del: steps.simps split: if_splits option.splits)+


lemma running_selection:
  assumes "outcome (selection n e) = Running"
  shows "get_platform_count_status e = CL_SUCCESS \<and> platform_ids e \<noteq> [] \<and>
    get_platform_ids_status e = CL_SUCCESS \<and> find (gpu_found e) (platform_ids e) \<noteq> None"
proof -
  have count: "get_platform_count_status e = CL_SUCCESS"
    using assms
    by (cases "get_platform_count_status e = CL_SUCCESS")
      (simp_all add: selection_after_fill fill_vectors_eq initial_state_def get_platforms_def
        clGetPlatformIDs_count_def checkError_def emit_def exit_with_def Let_def)
  have ids: "platform_ids e \<noteq> []"
    using assms selection_no_platform(1) [of e n] by auto
  have list: "get_platform_ids_status e = CL_SUCCESS"
    using assms count ids
    by (cases "get_platform_ids_status e = CL_SUCCESS")
      (simp_all add: selection_after_fill fill_vectors_eq initial_state_def get_platforms_def
        clGetPlatformIDs_count_def clGetPlatformIDs_def checkError_def emit_def exit_with_def
        Let_def)
  have "find (gpu_found e) (platform_ids e) \<noteq> None"
    using assms selection_enumerated(3) [OF count list, of n] by auto
  then show ?thesis
    using count ids list by simp
qed

text \<open>
  The run reaches line 235, both results computed, exactly when every call succeeds; the
  program ends with the exit status 0 exactly when every call succeeds.
\<close>

lemma steps_running_Cons:
  "outcome (steps (f # fs) s) = Running \<Longrightarrow> outcome (steps fs (f s)) = Running"
  by (erule running_steps_ConsE)

lemma computed_after_selection:
  "computed n e = steps
     [get_device_type e, get_compute_units e, build_kernel e, create_buffers e n,
      write_buffers e n, set_kernel_args e, timed_launch e n, read_back e n,
      sequential_test e n] (selection n e)"
proof -
  have "[fill_vectors e n, get_platforms e, secure_gpu e, get_device_type e, get_compute_units e,
      build_kernel e, create_buffers e n, write_buffers e n, set_kernel_args e,
      timed_launch e n, read_back e n, sequential_test e n] =
    [fill_vectors e n, get_platforms e, secure_gpu e] @
    [get_device_type e, get_compute_units e, build_kernel e, create_buffers e n,
      write_buffers e n, set_kernel_args e, timed_launch e n, read_back e n,
      sequential_test e n]"
    by simp
  then show ?thesis
    unfolding computed_def selection_def by (simp only: steps_append)
qed

lemma computed_running_iff: "outcome (computed n e) = Running \<longleftrightarrow> calls_succeed e"
proof
  assume "calls_succeed e"
  then show "outcome (computed n e) = Running"
    by (rule computed_results(1))
next
  assume running: "outcome (computed n e) = Running"
  let ?s3 = "selection n e"
  let ?s4 = "get_device_type e ?s3"
  let ?s5 = "get_compute_units e ?s4"
  let ?s6 = "build_kernel e ?s5"
  let ?s7 = "create_buffers e n ?s6"
  let ?s8 = "write_buffers e n ?s7"
  let ?s9 = "set_kernel_args e ?s8"
  let ?s10 = "timed_launch e n ?s9"
  let ?s11 = "read_back e n ?s10"
  note r3 = running [unfolded computed_after_selection]
  have "outcome ?s3 = Running"
    using r3 by (rule running_steps_ConsE)
  note ok3 = running_selection [OF this]
  have "outcome ?s4 = Running"
    using r3 by (rule running_steps_ConsE)
  note ok4 = running_get_device_type [OF this]
  note r4 = steps_running_Cons [OF r3]
  have "outcome ?s5 = Running"
    using r4 by (rule running_steps_ConsE)
  note ok5 = running_get_compute_units [OF this]
  note r5 = steps_running_Cons [OF r4]
  have "outcome ?s6 = Running"
    using r5 by (rule running_steps_ConsE)
  note ok6 = running_build_kernel [OF this]
  note r6 = steps_running_Cons [OF r5]
  have "outcome ?s7 = Running"
    using r6 by (rule running_steps_ConsE)
  note ok7 = running_create_buffers [OF this]
  note r7 = steps_running_Cons [OF r6]
  have "outcome ?s8 = Running"
    using r7 by (rule running_steps_ConsE)
  note ok8 = running_write_buffers [OF this]
  note r8 = steps_running_Cons [OF r7]
  have "outcome ?s9 = Running"
    using r8 by (rule running_steps_ConsE)
  note ok9 = running_set_kernel_args [OF this]
  note r9 = steps_running_Cons [OF r8]
  have "outcome ?s10 = Running"
    using r9 by (rule running_steps_ConsE)
  note ok10 = running_timed_launch [OF this]
  note r10 = steps_running_Cons [OF r9]
  have "outcome ?s11 = Running"
    using r10 by (rule running_steps_ConsE)
  note ok11 = running_read_back [OF this]
  show "calls_succeed e"
    unfolding calls_succeed_def
    using ok3 ok4 ok5 ok6 ok7 ok8 ok9 ok10 ok11 by blast
qed

lemma computed_not_exit_0: "outcome (computed n e) \<noteq> Exited 0"
  unfolding computed_def
proof (rule nz_steps)
  show "outcome (initial_state n) \<noteq> Exited 0"
    by (simp add: initial_state_def)
  fix f and t :: state
  assume f: "f \<in> set [fill_vectors e n, get_platforms e, secure_gpu e, get_device_type e,
      get_compute_units e, build_kernel e, create_buffers e n, write_buffers e n,
      set_kernel_args e, timed_launch e n, read_back e n, sequential_test e n]"
    and "outcome t = Running"
  then have "outcome t \<noteq> Exited 0"
    by simp
  from nz_phases [OF this] f show "outcome (f t) \<noteq> Exited 0"
    by auto
qed

lemma run_stops_at_computed:
  "outcome (computed n e) \<noteq> Running \<Longrightarrow> run n e = computed n e"
  by (simp add: run_after_computed steps_not_Running)

lemma run_exit_0: "outcome (run n e) = Exited 0 \<Longrightarrow> calls_succeed e"
proof -
  assume exit: "outcome (run n e) = Exited 0"
  have "outcome (computed n e) = Running"
  proof (rule ccontr)
    assume "outcome (computed n e) \<noteq> Running"
    then have "run n e = computed n e"
      by (rule run_stops_at_computed)
    then show False
      using exit computed_not_exit_0 [of n e] by simp
  qed
  then show ?thesis
    by (simp add: computed_running_iff)
qed

lemma main_exit_iff: "outcome (main e) = Exited EXIT_SUCCESS \<longleftrightarrow> calls_succeed e"
proof
  assume "outcome (main e) = Exited EXIT_SUCCESS"
  then show "calls_succeed e"
    by (simp add: main_def EXIT_SUCCESS_def run_exit_0)
next
  assume "calls_succeed e"
  then show "outcome (main e) = Exited EXIT_SUCCESS"
    by (simp add: main_success final_state_def Let_def EXIT_SUCCESS_def)
qed

lemma env_gpu_succeeds: "outcome (main env_gpu) = Exited EXIT_SUCCESS"
  by (simp add: main_exit_iff env_gpu_calls_succeed)

subsection \<open>The order of the work items does not matter\<close>

text \<open>
  The work items of a launch run in parallel. Each of them writes one element of the
  result buffer, its own, and reads the inputs only: run one after the other in any
  order, they leave the device memory that the order \<open>0, 1, ..., n - 1\<close> of \<open>ndrange\<close>
  leaves.
\<close>

lemma run_work_items_any_order:
  assumes "mem a = Some xa" and "mem b = Some xb" and "mem c = Some xc" and "mem r = Some xr"
    and "r \<noteq> a" and "r \<noteq> b" and "r \<noteq> c"
    and "n \<le> length xa" and "n \<le> length xb" and "n \<le> length xc" and "n \<le> length xr"
    and "distinct order" and "set order \<subseteq> {0..<n}"
  shows "run_work_items (cuboid_area a b c r) order mem =
    Some (mem(r \<mapsto> map (\<lambda>i. if i \<in> set order then surface_area (xa ! i) (xb ! i) (xc ! i)
                               else xr ! i) [0..<length xr]))"
  using assms(12,13)
proof (induction order rule: rev_induct)
  case Nil
  then show ?case
    using assms(4) by (simp add: map_nth fun_upd_idem)
next
  case (snoc gid order)
  let ?f = "\<lambda>i. surface_area (xa ! i) (xb ! i) (xc ! i)"
  let ?ys = "map (\<lambda>i. if i \<in> set order then ?f i else xr ! i) [0..<length xr]"
  have gid: "gid < n" "gid \<notin> set order"
    using snoc.prems by auto
  have "run_work_items (cuboid_area a b c r) order mem = Some (mem(r \<mapsto> ?ys))"
    using snoc.prems by (intro snoc.IH) auto
  moreover have "cuboid_area a b c r gid (mem(r \<mapsto> ?ys)) =
    Some (mem(r \<mapsto> ?ys[gid := ?f gid]))"
    using assms(1-11) gid
    by (simp add: cuboid_area_def load_def store_def surface_area_def)
  moreover have "?ys[gid := ?f gid] =
    map (\<lambda>i. if i \<in> set (order @ [gid]) then ?f i else xr ! i) [0..<length xr]"
    using gid assms(11) by (intro nth_equalityI) (auto simp: nth_list_update)
  ultimately show ?case
    by (auto simp: run_work_items_append)
qed

lemma ndrange_any_order:
  assumes "mem a = Some xa" and "mem b = Some xb" and "mem c = Some xc" and "mem r = Some xr"
    and "r \<noteq> a" and "r \<noteq> b" and "r \<noteq> c"
    and "n \<le> length xa" and "n \<le> length xb" and "n \<le> length xc" and "n \<le> length xr"
    and "distinct order" and "set order = {0..<n}"
  shows "run_work_items (cuboid_area a b c r) order mem = ndrange a b c r n mem"
proof -
  have "map (\<lambda>i. if i \<in> set order then surface_area (xa ! i) (xb ! i) (xc ! i) else xr ! i)
      [0..<length xr] = surface_areas xa xb xc n @ drop n xr"
    using assms(11,13)
    by (intro nth_equalityI) (auto simp: nth_append surface_areas_def)
  then show ?thesis
    using run_work_items_any_order [OF assms(1-12)] assms(13) ndrange_eq [OF assms(1-11)]
    by simp
qed

lemma concat_map_Nil [simp]: "concat (map (\<lambda>x. []) xs) = []"
  by (induction xs) simp_all

lemma env_gpu_generated:
  "generated env_gpu 0 4 ! 2 = 1" "generated env_gpu (Suc 0) 4 ! 2 = 8"
  "generated env_gpu 2 4 ! 2 = 6"
  by (simp_all add: nth_generated env_gpu_def c_rem_def smod_int_alt_def)

section \<open>The claims\<close>

text \<open>
  Claim C1. In a run that reaches the end of the sequential loop (line 235), for every
  index \<open>i\<close> below the element count the result read back from the device equals the
  result of the sequential loop, and both are
  \<open>2*((a[i]*b[i]) + (b[i]*c[i]) + (a[i]*c[i]))\<close> on the three input arrays.
\<close>

theorem accelerator_equals_sequential:
  assumes "outcome (computed n e) = Running" and "i < n"
  shows "result_opencl (run n e) ! i = result_sequential (run n e) ! i \<and>
    result_sequential (run n e) ! i =
      2 * ((source_a (run n e) ! i * source_b (run n e) ! i)
           + (source_b (run n e) ! i * source_c (run n e) ! i)
           + (source_a (run n e) ! i * source_c (run n e) ! i))"
proof -
  have "calls_succeed e"
    using assms(1) by (simp add: computed_running_iff)
  then show ?thesis
    using \<open>i < n\<close> by (simp add: run_results run_sources nth_surface_areas surface_area_def)
qed

theorem accelerator_equals_sequential_witness:
  "outcome (computed 4 env_gpu) = Running \<and> (2::nat) < 4 \<and>
   source_a (run 4 env_gpu) ! 2 = 1 \<and> source_b (run 4 env_gpu) ! 2 = 8 \<and>
   source_c (run 4 env_gpu) ! 2 = 6 \<and>
   result_opencl (run 4 env_gpu) ! 2 = 124 \<and> result_sequential (run 4 env_gpu) ! 2 = 124"
proof -
  have running: "outcome (computed 4 env_gpu) = Running"
    using env_gpu_calls_succeed by (rule computed_results(1))
  have "source_a (run 4 env_gpu) ! 2 = 1" "source_b (run 4 env_gpu) ! 2 = 8"
    "source_c (run 4 env_gpu) ! 2 = 6"
    by (simp_all add: run_sources env_gpu_generated)
  then show ?thesis
    using running accelerator_equals_sequential [OF running, of 2] by simp
qed

text \<open>
  Claim C2. For N = 4 and the inputs a = [1,2,3,4], b = [1,1,1,1], c = [2,2,2,2] (which
  the generator produces in \<open>scenario_env\<close>), the result read back from the device and the
  result of the sequential loop are both exactly [10,16,22,28].
\<close>

theorem scenario_results:
  "source_a (computed 4 scenario_env) = [1, 2, 3, 4] \<and>
   source_b (computed 4 scenario_env) = [1, 1, 1, 1] \<and>
   source_c (computed 4 scenario_env) = [2, 2, 2, 2] \<and>
   result_opencl (computed 4 scenario_env) = [10, 16, 22, 28] \<and>
   result_sequential (computed 4 scenario_env) = [10, 16, 22, 28]"
  by (simp add: computed_results [OF scenario_calls_succeed] scenario_generated
      scenario_surface_areas)

text \<open>
  Claim C3. When no platform is found, the run ends with the exit status
  \<open>EXIT_FAILURE\<close>, which is not 0, right after the call that counts the platforms: it
  requests no device and calls nothing else, and \<^verbatim>\<open>device_id\<close> is still \<open>NULL\<close>.
\<close>

theorem no_platform_fails:
  assumes "platform_ids e = []"
  shows "outcome (main e) = Exited EXIT_FAILURE \<and> EXIT_FAILURE \<noteq> EXIT_SUCCESS \<and>
    device_id (main e) = NULL \<and>
    trace (main e) =
      GetPlatformIDs 0 #
      (if get_platform_count_status e = CL_SUCCESS then [Printf Found_0_platforms]
       else [Error_report ''Finding platforms'' (get_platform_count_status e)])"
proof -
  have "outcome (selection LENGTH_const e) \<noteq> Running"
    using assms by (simp add: selection_no_platform)
  then have "main e = selection LENGTH_const e"
    by (simp add: main_def run_stops_at_selection)
  then show ?thesis
    using assms by (simp add: selection_no_platform EXIT_FAILURE_def EXIT_SUCCESS_def)
qed

theorem no_platform_fails_witness:
  "platform_ids env_no_platform = [] \<and>
   outcome (main env_no_platform) = Exited 1 \<and>
   device_id (main env_no_platform) = 0 \<and>
   trace (main env_no_platform) = [GetPlatformIDs 0, Printf Found_0_platforms]"
  using no_platform_fails [of env_no_platform]
  by (simp add: env_no_platform_def env_gpu_def EXIT_FAILURE_def NULL_def CL_SUCCESS_def)

text \<open>
  Claim C4. When the platforms have been enumerated, the run requests one GPU from the
  platforms in enumeration order, up to and including the first platform whose request
  succeeds and from no platform after it; \<^verbatim>\<open>device_id\<close> is the device of that first
  platform. When no request succeeds, \<^verbatim>\<open>device_id\<close> stays \<open>NULL\<close> and the run ends with
  \<open>EXIT_FAILURE\<close>.
\<close>

theorem first_matching_device:
  assumes "get_platform_count_status e = CL_SUCCESS" and "get_platform_ids_status e = CL_SUCCESS"
  shows "device_requests (main e) =
      map (\<lambda>p. (p, CL_DEVICE_TYPE_GPU))
        (takeWhile (\<lambda>p. \<not> gpu_found e p) (platform_ids e) @
         take 1 (dropWhile (\<lambda>p. \<not> gpu_found e p) (platform_ids e))) \<and>
    (case find (gpu_found e) (platform_ids e) of
       Some p \<Rightarrow> device_id (main e) = snd (get_device_ids_reply e p)
     | None \<Rightarrow> device_id (main e) = NULL \<and> outcome (main e) = Exited EXIT_FAILURE)"
proof -
  have kept: "kept (main e) = kept (selection LENGTH_const e)"
    by (simp add: main_def kept_run)
  then have "device_requests (main e) = device_requests (selection LENGTH_const e)"
    and dev: "device_id (main e) = device_id (selection LENGTH_const e)"
    by (simp_all add: kept_def)
  then have requests: "device_requests (main e) =
      map (\<lambda>p. (p, CL_DEVICE_TYPE_GPU))
        (takeWhile (\<lambda>p. \<not> gpu_found e p) (platform_ids e) @
         take 1 (dropWhile (\<lambda>p. \<not> gpu_found e p) (platform_ids e)))"
    using selection_enumerated(1) [OF assms] by (simp add: requested_def)
  have device: "device_id (main e) = selected_device e (platform_ids e) NULL"
    using dev selection_enumerated(2) [OF assms] by simp
  show ?thesis
  proof (cases "find (gpu_found e) (platform_ids e)")
    case None
    then have "outcome (selection LENGTH_const e) = Exited EXIT_FAILURE"
      using selection_enumerated(3) [OF assms] by simp
    then have "outcome (main e) = Exited EXIT_FAILURE"
      by (simp add: main_def run_stops_at_selection)
    then show ?thesis
      using None requests device by (simp add: selected_device_def)
  next
    case (Some p)
    then show ?thesis
      using requests device by (simp add: selected_device_def)
  qed
qed

theorem first_matching_device_witness:
  "get_platform_count_status env_gpu = CL_SUCCESS \<and>
   get_platform_ids_status env_gpu = CL_SUCCESS \<and>
   platform_ids env_gpu = [7, 8, 9] \<and>
   device_requests (main env_gpu) = [(7, CL_DEVICE_TYPE_GPU), (8, CL_DEVICE_TYPE_GPU)] \<and>
   device_id (main env_gpu) = 42 \<and>
   get_platform_count_status env_no_gpu = CL_SUCCESS \<and>
   get_platform_ids_status env_no_gpu = CL_SUCCESS \<and>
   device_requests (main env_no_gpu) =
     [(7, CL_DEVICE_TYPE_GPU), (8, CL_DEVICE_TYPE_GPU), (9, CL_DEVICE_TYPE_GPU)] \<and>
   device_id (main env_no_gpu) = 0 \<and>
   outcome (main env_no_gpu) = Exited 1"
  using first_matching_device [of env_gpu] first_matching_device [of env_no_gpu]
  by (simp add: env_no_gpu_def env_gpu_def CL_SUCCESS_def gpu_found_def NULL_def
      EXIT_FAILURE_def)

text \<open>
  Claim C5, as amended. At the end of a run that ends with the exit status 0, the three
  input buffers, the program, the kernel, the command queue and the context are each
  released once, in this order: \<^verbatim>\<open>d_a\<close>, \<^verbatim>\<open>d_b\<close>, \<^verbatim>\<open>d_c\<close>, the program, the kernel, the
  command queue, the context. So the input buffers are released before the program, the
  program before the queue and the queue before the context, and the kernel after the
  program. (Nothing is said of the output buffer \<^verbatim>\<open>d_result\<close>, a fourth buffer distinct
  from the three.)
\<close>

theorem teardown_order:
  assumes "outcome (main e) = Exited EXIT_SUCCESS"
  shows "distinct [d_a (main e), d_b (main e), d_c (main e), d_result (main e)] \<and>
    filter (\<lambda>ev. ev \<noteq> ReleaseMemObject (d_result (main e))) (release_calls (main e)) =
      [ReleaseMemObject (d_a (main e)),
       ReleaseMemObject (d_b (main e)),
       ReleaseMemObject (d_c (main e)),
       ReleaseProgram (program (main e)),
       ReleaseKernel (kernel_cuboid_area (main e)),
       ReleaseCommandQueue (commands (main e)),
       ReleaseContext (ctx (main e))]"
proof -
  have "calls_succeed e"
    using assms by (simp add: main_exit_iff)
  then show ?thesis
    by (simp add: main_success final_state_def release_calls_def setup_trace_def launch_trace_def
        report_trace_def cleanup_trace_def Let_def EXIT_SUCCESS_def filter_map comp_def)
qed

theorem teardown_order_witness:
  "outcome (main env_gpu) = Exited EXIT_SUCCESS \<and>
   distinct [d_a (main env_gpu), d_b (main env_gpu), d_c (main env_gpu),
     d_result (main env_gpu)] \<and>
   filter (\<lambda>ev. ev \<noteq> ReleaseMemObject (d_result (main env_gpu))) (release_calls (main env_gpu)) =
      [ReleaseMemObject (d_a (main env_gpu)),
       ReleaseMemObject (d_b (main env_gpu)),
       ReleaseMemObject (d_c (main env_gpu)),
       ReleaseProgram (program (main env_gpu)),
       ReleaseKernel (kernel_cuboid_area (main env_gpu)),
       ReleaseCommandQueue (commands (main env_gpu)),
       ReleaseContext (ctx (main env_gpu))]"
  using teardown_order [OF env_gpu_succeeds] env_gpu_succeeds by simp

text \<open>
  Claim C5 as stated fails in \<open>env_gpu\<close>: the run ends with exit status 0, its release
  calls are those of the buffers 5, 6, 7, of the program 3, of the kernel 4, of the queue
  2 and of the context 1, in this order. The kernel is not released before the program,
  and the output buffer \<^verbatim>\<open>d_result\<close>, the buffer 8, is not released at all: it is
  still in the device memory when the run ends.
\<close>

theorem teardown_order_counterexample:
  "outcome (main env_gpu) = Exited EXIT_SUCCESS \<and>
   program (main env_gpu) = 3 \<and> kernel_cuboid_area (main env_gpu) = 4 \<and>
   d_result (main env_gpu) = 8 \<and>
   release_calls (main env_gpu) =
     [ReleaseMemObject 5, ReleaseMemObject 6, ReleaseMemObject 7, ReleaseProgram 3,
      ReleaseKernel 4, ReleaseCommandQueue 2, ReleaseContext 1] \<and>
   \<not> released_before (ReleaseKernel 4) (ReleaseProgram 3) (release_calls (main env_gpu)) \<and>
   ReleaseMemObject 8 \<notin> set (trace (main env_gpu)) \<and>
   device_mem (main env_gpu) 8 \<noteq> None"
  by (simp add: main_success [OF env_gpu_calls_succeed] final_state_def release_calls_def
      setup_trace_def launch_trace_def report_trace_def cleanup_trace_def Let_def
      EXIT_SUCCESS_def filter_map comp_def released_before_def image_iff)

text \<open>
  Claim C6. A run that ends with the exit status 0 has allocated exactly four device
  buffers: three read-only, then one write-only, each of \<open>LENGTH * sizeof(int)\<close> bytes,
  where \<open>LENGTH\<close> is the number of elements of each host array.
\<close>

theorem four_buffers:
  assumes "outcome (main e) = Exited EXIT_SUCCESS"
  shows "buffer_allocations (main e) =
      [(CL_MEM_READ_ONLY, LENGTH_const * sizeof_int),
       (CL_MEM_READ_ONLY, LENGTH_const * sizeof_int),
       (CL_MEM_READ_ONLY, LENGTH_const * sizeof_int),
       (CL_MEM_WRITE_ONLY, LENGTH_const * sizeof_int)] \<and>
    length (source_a (main e)) = LENGTH_const \<and>
    length (source_b (main e)) = LENGTH_const \<and>
    length (source_c (main e)) = LENGTH_const \<and>
    length (result_opencl (main e)) = LENGTH_const \<and>
    length (result_sequential (main e)) = LENGTH_const"
proof -
  have "calls_succeed e"
    using assms by (simp add: main_exit_iff)
  then show ?thesis
    by (simp add: main_success final_state_def buffer_allocations_def setup_trace_def
        launch_trace_def report_trace_def cleanup_trace_def Let_def comp_def
        sizeof_int_def sizeof_float_def mult.commute)
qed

theorem four_buffers_witness:
  "outcome (main env_gpu) = Exited EXIT_SUCCESS \<and>
   buffer_allocations (main env_gpu) =
      [(CL_MEM_READ_ONLY, 314572800), (CL_MEM_READ_ONLY, 314572800),
       (CL_MEM_READ_ONLY, 314572800), (CL_MEM_WRITE_ONLY, 314572800)] \<and>
   length (source_a (main env_gpu)) = 78643200"
  using four_buffers [OF env_gpu_succeeds] env_gpu_succeeds
  by (simp add: LENGTH_const_def sizeof_int_def)

text \<open>
  Claim C7. In a run that ends with the exit status 0, the actions strictly between the
  first and the second reading of the clock are the enqueue of the kernel and the wait
  for the queue, and nothing else: no build, no upload, no readback. The first reading
  directly follows the binding of the last kernel argument, the time reported directly
  follows the second reading and is the second reading minus the first.
\<close>

theorem timed_interval:
  assumes "outcome (main e) = Exited EXIT_SUCCESS"
  shows "between_first_two Wtime (trace (main e)) =
      [EnqueueNDRangeKernel (commands (main e)) (kernel_cuboid_area (main e)) LENGTH_const,
       Finish (commands (main e))] \<and>
    trace (main e) =
      setup_trace LENGTH_const e @
      [Wtime,
       EnqueueNDRangeKernel (commands (main e)) (kernel_cuboid_area (main e)) LENGTH_const,
       Finish (commands (main e)),
       Wtime,
       Printf (Kernel_ran_in (wtime_readings e 1 - wtime_readings e 0))] @
      report_trace LENGTH_const e @ cleanup_trace \<and>
    Wtime \<notin> set (setup_trace LENGTH_const e) \<and>
    cl_time (main e) = wtime_readings e 1 - wtime_readings e 0"
proof -
  have succeed: "calls_succeed e"
    using assms by (simp add: main_exit_iff)
  have no_clock: "Wtime \<notin> set (setup_trace LENGTH_const e)"
    by (auto simp: setup_trace_def Let_def)
  have trace: "trace (main e) =
      setup_trace LENGTH_const e @
      [Wtime,
       EnqueueNDRangeKernel (commands (main e)) (kernel_cuboid_area (main e)) LENGTH_const,
       Finish (commands (main e)),
       Wtime,
       Printf (Kernel_ran_in (wtime_readings e 1 - wtime_readings e 0))] @
      report_trace LENGTH_const e @ cleanup_trace"
    using succeed by (simp add: main_success final_state_def launch_trace_def Let_def)
  have "dropWhile (\<lambda>ev. ev \<noteq> Wtime) (setup_trace LENGTH_const e @ Wtime # evs) = Wtime # evs"
    for evs
    using no_clock by (simp add: dropWhile_append)
  then have "between_first_two Wtime (trace (main e)) =
      [EnqueueNDRangeKernel (commands (main e)) (kernel_cuboid_area (main e)) LENGTH_const,
       Finish (commands (main e))]"
    by (subst trace) (simp add: between_first_two_def)
  moreover have "cl_time (main e) = wtime_readings e 1 - wtime_readings e 0"
    using succeed by (simp add: main_success final_state_def Let_def)
  ultimately show ?thesis
    using no_clock trace by simp
qed

theorem timed_interval_witness:
  "outcome (main env_gpu) = Exited EXIT_SUCCESS \<and>
   between_first_two Wtime (trace (main env_gpu)) =
      [EnqueueNDRangeKernel (commands (main env_gpu)) (kernel_cuboid_area (main env_gpu))
         LENGTH_const,
       Finish (commands (main env_gpu))] \<and>
   cl_time (main env_gpu) = 2"
proof -
  note interval = timed_interval [OF env_gpu_succeeds]
  have between: "between_first_two Wtime (trace (main env_gpu)) =
      [EnqueueNDRangeKernel (commands (main env_gpu)) (kernel_cuboid_area (main env_gpu))
         LENGTH_const,
       Finish (commands (main env_gpu))]"
    using interval by (rule conjunct1)
  have "cl_time (main env_gpu) = wtime_readings env_gpu 1 - wtime_readings env_gpu 0"
    using interval by blast
  then have "cl_time (main env_gpu) = 2"
    by (simp add: env_gpu_def)
  then show ?thesis
    using between env_gpu_succeeds by simp
qed

text \<open>
  Claim C8. A run that ends with the exit status 0 has written to stdout, in this
  order: the device-type line, the compute-unit line, the time of the kernel, the time
  of the sequential loop, the ratio, 100 item lines with the inputs and both results of
  the indices 0 to 99, the number of remaining items, \<open>LENGTH - 100\<close>, and a last empty
  line.
\<close>

theorem report_lines:
  assumes "outcome (main e) = Exited EXIT_SUCCESS"
  shows "stdout (main e) =
      [device_type_line (snd (device_type_reply e)),
       Total_compute_units (snd (compute_units_reply e)),
       Kernel_ran_in (cl_time (main e)),
       Sequential_ran_in (seq_time (main e)),
       Sequential_ratio (double_div (seq_time (main e)) (cl_time (main e)))] @
      item_lines (source_a (main e)) (source_b (main e)) (source_c (main e))
        (result_opencl (main e)) (result_sequential (main e)) 100 @
      [More_items (word_of_nat LENGTH_const - 100), Final_newline] \<and>
    length (item_lines (source_a (main e)) (source_b (main e)) (source_c (main e))
        (result_opencl (main e)) (result_sequential (main e)) 100) = 100 \<and>
    sint (word_of_nat LENGTH_const - 100 :: c_int) = int LENGTH_const - 100"
proof -
  have "calls_succeed e"
    using assms by (simp add: main_exit_iff)
  then show ?thesis
    by (simp add: main_success final_state_def stdout_def setup_trace_def launch_trace_def
        report_trace_def cleanup_trace_def Let_def comp_def item_lines_def LENGTH_const_def)
qed

theorem report_lines_witness:
  "outcome (main env_gpu) = Exited EXIT_SUCCESS \<and>
   take 5 (stdout (main env_gpu)) =
      [Device_type_GPU, Total_compute_units 16, Kernel_ran_in 2, Sequential_ran_in 2,
       Sequential_ratio (Some 1)] \<and>
   length (stdout (main env_gpu)) = 107 \<and>
   drop 105 (stdout (main env_gpu)) = [More_items 78643100, Final_newline]"
proof -
  have "wtime_readings env_gpu 1 - wtime_readings env_gpu 0 = 2"
    and "wtime_readings env_gpu 3 - wtime_readings env_gpu 2 = 2"
    by (simp_all add: env_gpu_def)
  then have times: "cl_time (main env_gpu) = 2" "seq_time (main env_gpu) = 2"
    by (simp_all add: main_success [OF env_gpu_calls_succeed] final_state_def Let_def)
  have lines: "device_type_line (snd (device_type_reply env_gpu)) = Device_type_GPU"
    "snd (compute_units_reply env_gpu) = 16"
    by (simp_all add: env_gpu_def device_type_line_def CL_DEVICE_TYPE_GPU_def)
  have count: "word_of_nat LENGTH_const - 100 = (78643100 :: c_int)"
    by (simp add: LENGTH_const_def)
  show ?thesis
    using report_lines [OF env_gpu_succeeds] env_gpu_succeeds
    by (simp add: times lines count double_div_def)
qed

text \<open>
  Claim C9. The elements of index \<open>i\<close> which the generator produces from non-negative
  values of \<^verbatim>\<open>rand\<close> (what the C standard lets \<^verbatim>\<open>rand\<close> return) lie between 1 and 9; on
  them no step of the formula overflows: the 32-bit products, their sums and the double
  of the sum are the exact integers, and the surface area is at most 486.
\<close>

theorem generated_inputs_in_range:
  assumes "i < n"
    and "0 \<le> sint (rand_sequence e (3 * i))"
    and "0 \<le> sint (rand_sequence e (3 * i + 1))"
    and "0 \<le> sint (rand_sequence e (3 * i + 2))"
  shows "1 \<le> sint (source_a (run n e) ! i) \<and> sint (source_a (run n e) ! i) \<le> 9 \<and>
    1 \<le> sint (source_b (run n e) ! i) \<and> sint (source_b (run n e) ! i) \<le> 9 \<and>
    1 \<le> sint (source_c (run n e) ! i) \<and> sint (source_c (run n e) ! i) \<le> 9 \<and>
    sint (source_a (run n e) ! i * source_b (run n e) ! i) =
      sint (source_a (run n e) ! i) * sint (source_b (run n e) ! i) \<and>
    sint (source_b (run n e) ! i * source_c (run n e) ! i) =
      sint (source_b (run n e) ! i) * sint (source_c (run n e) ! i) \<and>
    sint (source_a (run n e) ! i * source_c (run n e) ! i) =
      sint (source_a (run n e) ! i) * sint (source_c (run n e) ! i) \<and>
    sint ((source_a (run n e) ! i * source_b (run n e) ! i)
          + (source_b (run n e) ! i * source_c (run n e) ! i)) =
      sint (source_a (run n e) ! i) * sint (source_b (run n e) ! i)
      + sint (source_b (run n e) ! i) * sint (source_c (run n e) ! i) \<and>
    sint ((source_a (run n e) ! i * source_b (run n e) ! i)
          + (source_b (run n e) ! i * source_c (run n e) ! i)
          + (source_a (run n e) ! i * source_c (run n e) ! i)) =
      sint (source_a (run n e) ! i) * sint (source_b (run n e) ! i)
      + sint (source_b (run n e) ! i) * sint (source_c (run n e) ! i)
      + sint (source_a (run n e) ! i) * sint (source_c (run n e) ! i) \<and>
    sint (2 * ((source_a (run n e) ! i * source_b (run n e) ! i)
               + (source_b (run n e) ! i * source_c (run n e) ! i)
               + (source_a (run n e) ! i * source_c (run n e) ! i))) =
      area_int (sint (source_a (run n e) ! i)) (sint (source_b (run n e) ! i))
        (sint (source_c (run n e) ! i)) \<and>
    area_int (sint (source_a (run n e) ! i)) (sint (source_b (run n e) ! i))
        (sint (source_c (run n e) ! i)) \<le> 486"
proof -
  define a where "a = source_a (run n e) ! i"
  define b where "b = source_b (run n e) ! i"
  define c where "c = source_c (run n e) ! i"
  have a: "a = c_rem (rand_sequence e (3 * i)) 9 + 1"
    and b: "b = c_rem (rand_sequence e (3 * i + 1)) 9 + 1"
    and c: "c = c_rem (rand_sequence e (3 * i + 2)) 9 + 1"
    using \<open>i < n\<close> by (simp_all add: a_def b_def c_def run_sources nth_generated)
  have ra: "1 \<le> sint a" "sint a \<le> 9"
    unfolding a using assms(2) by (rule generated_range)+
  have rb: "1 \<le> sint b" "sint b \<le> 9"
    unfolding b using assms(3) by (rule generated_range)+
  have rc: "1 \<le> sint c" "sint c \<le> 9"
    unfolding c using assms(4) by (rule generated_range)+
  have "sint (a * b) = sint a * sint b" "sint (b * c) = sint b * sint c"
    "sint (a * c) = sint a * sint c"
    using ra rb rc by (simp_all add: product_exact)
  moreover have "sint ((a * b) + (b * c)) = sint a * sint b + sint b * sint c"
    "sint ((a * b) + (b * c) + (a * c)) = sint a * sint b + sint b * sint c + sint a * sint c"
    using ra rb rc by (rule sum_exact)+
  moreover have "sint (2 * ((a * b) + (b * c) + (a * c))) = area_int (sint a) (sint b) (sint c)"
    "area_int (sint a) (sint b) (sint c) \<le> 486"
    using ra rb rc by (rule area_exact)+
  ultimately show ?thesis
    using ra rb rc unfolding a_def b_def c_def by simp
qed

theorem generated_inputs_in_range_witness:
  "(2::nat) < 4 \<and>
   0 \<le> sint (rand_sequence env_gpu (3 * 2)) \<and>
   0 \<le> sint (rand_sequence env_gpu (3 * 2 + 1)) \<and>
   0 \<le> sint (rand_sequence env_gpu (3 * 2 + 2)) \<and>
   1 \<le> sint (source_a (run 4 env_gpu) ! 2) \<and> sint (source_a (run 4 env_gpu) ! 2) \<le> 9 \<and>
   1 \<le> sint (source_b (run 4 env_gpu) ! 2) \<and> sint (source_b (run 4 env_gpu) ! 2) \<le> 9 \<and>
   1 \<le> sint (source_c (run 4 env_gpu) ! 2) \<and> sint (source_c (run 4 env_gpu) ! 2) \<le> 9 \<and>
   area_int (sint (source_a (run 4 env_gpu) ! 2)) (sint (source_b (run 4 env_gpu) ! 2))
     (sint (source_c (run 4 env_gpu) ! 2)) \<le> 486"
proof -
  have h: "0 \<le> sint (rand_sequence env_gpu (3 * 2))"
    "0 \<le> sint (rand_sequence env_gpu (3 * 2 + 1))"
    "0 \<le> sint (rand_sequence env_gpu (3 * 2 + 2))"
    by (simp_all add: env_gpu_def)
  show ?thesis
    using h generated_inputs_in_range [of 2 4 env_gpu, OF _ h] by simp
qed

text \<open>
  Claim C10. The program never calls \<^verbatim>\<open>srand\<close>, so \<^verbatim>\<open>rand\<close> yields the sequence of the
  default seed in every run: two runs with the same C library fill the three input
  arrays alike, whatever else differs between them (platforms, devices, statuses, the
  clock), and when every call succeeds in both, their sequential results are the same.
\<close>

theorem inputs_deterministic:
  assumes "rand_sequence e1 = rand_sequence e2"
  shows "source_a (run n e1) = source_a (run n e2) \<and>
    source_b (run n e1) = source_b (run n e2) \<and>
    source_c (run n e1) = source_c (run n e2) \<and>
    (calls_succeed e1 \<longrightarrow> calls_succeed e2 \<longrightarrow>
       result_sequential (run n e1) = result_sequential (run n e2))"
proof -
  have "generated e1 k n = generated e2 k n" for k
    using assms by (simp add: generated_def)
  then show ?thesis
    by (simp add: run_sources run_results)
qed

theorem inputs_deterministic_witness:
  "rand_sequence env_gpu = rand_sequence env_other \<and>
   platform_ids env_gpu \<noteq> platform_ids env_other \<and>
   wtime_readings env_gpu 1 \<noteq> wtime_readings env_other 1 \<and>
   calls_succeed env_gpu \<and> calls_succeed env_other \<and>
   source_a (run 4 env_gpu) = source_a (run 4 env_other) \<and>
   source_b (run 4 env_gpu) = source_b (run 4 env_other) \<and>
   source_c (run 4 env_gpu) = source_c (run 4 env_other) \<and>
   result_sequential (run 4 env_gpu) = result_sequential (run 4 env_other)"
proof -
  have r: "rand_sequence env_gpu = rand_sequence env_other"
    by (simp add: env_other_def)
  have s: "calls_succeed env_other"
    by (simp add: calls_succeed_def env_other_def env_gpu_def CL_SUCCESS_def gpu_found_def)
  have d: "platform_ids env_gpu \<noteq> platform_ids env_other"
    "wtime_readings env_gpu 1 \<noteq> wtime_readings env_other 1"
    by (simp_all add: env_other_def env_gpu_def)
  show ?thesis
    using r s d env_gpu_calls_succeed inputs_deterministic [OF r, of 4] by simp
qed


end
